theory Spec2Isabelle
  imports Complex_Main "HOL-Library.AList"
begin

section \<open>Values exchanged with the outside world\<close>

text \<open>
  The program is a sequential HTTP client (\<^verbatim>\<open>main.js\<close>).  Errors thrown by the
  JavaScript are values of \<open>error\<close>; a function that may throw returns \<open>error + 'a\<close>
  (\<open>Inl\<close> the thrown error) together with the state it reached.
\<close>

datatype error = TypeError | SyntaxError | TransportError | FileError

text \<open>
  JavaScript numbers.  Finite values are exact rationals (the rounding and the overflow of
  IEEE doubles are not modelled); \<open>NaN\<close> and the two infinities are kept because
  \<^verbatim>\<open>parseFloat\<close> produces them.
\<close>

datatype jsnum = NaN | NegInf | Fin rat | PosInf

text \<open>\<^verbatim>\<open>x * multiplier\<close> for one of the two positive multipliers of \<^verbatim>\<open>parsePoints\<close>.\<close>

fun times_multiplier :: "jsnum \<Rightarrow> rat \<Rightarrow> jsnum" where
  "times_multiplier NaN m = NaN"
| "times_multiplier NegInf m = NegInf"
| "times_multiplier (Fin r) m = Fin (r * m)"
| "times_multiplier PosInf m = PosInf"

text \<open>\<^verbatim>\<open>x >= c\<close> for a finite \<open>c\<close>: every comparison with \<open>NaN\<close> is false.\<close>

fun js_ge :: "jsnum \<Rightarrow> rat \<Rightarrow> bool" where
  "js_ge NaN c = False"
| "js_ge NegInf c = False"
| "js_ge (Fin r) c = (c \<le> r)"
| "js_ge PosInf c = True"

subsection \<open>\<^verbatim>\<open>String.prototype.split\<close> with a non-empty separator\<close>

fun startsWith :: "string \<Rightarrow> string \<Rightarrow> bool" where
  "startsWith s [] = True"
| "startsWith [] (p # ps) = False"
| "startsWith (c # cs) (p # ps) = (c = p \<and> startsWith cs ps)"

text \<open>
  \<open>split_from sep acc s\<close> scans \<open>s\<close> with the piece read so far in \<open>acc\<close> (reversed).
  The result always has at least one piece, as in JavaScript.
\<close>

function split_from :: "string \<Rightarrow> string \<Rightarrow> string \<Rightarrow> string list" where
  "split_from sep acc [] = [rev acc]"
| "split_from sep acc (c # cs) =
     (if sep \<noteq> [] \<and> startsWith (c # cs) sep
      then rev acc # split_from sep [] (drop (length sep) (c # cs))
      else split_from sep (c # acc) cs)"
  by pat_completeness auto
termination
  by (relation "measure (\<lambda>(sep, acc, s). length s)") auto

definition split_str :: "string \<Rightarrow> string \<Rightarrow> string list" where
  "split_str s sep = split_from sep [] s"

text \<open>\<^verbatim>\<open>xs[i]\<close> on an array: \<open>None\<close> is JavaScript's \<^verbatim>\<open>undefined\<close>.\<close>

fun at_index :: "'a list \<Rightarrow> nat \<Rightarrow> 'a option" where
  "at_index [] i = None"
| "at_index (x # xs) 0 = Some x"
| "at_index (x # xs) (Suc i) = at_index xs i"

subsection \<open>\<^verbatim>\<open>parseFloat\<close>\<close>

definition is_digit :: "char \<Rightarrow> bool" where
  "is_digit c = (c \<in> set ''0123456789'')"

definition digit_value :: "char \<Rightarrow> nat" where
  "digit_value c = of_char c - 48"

definition is_space :: "char \<Rightarrow> bool" where
  "is_space c = (c \<in> {CHR '' '', CHR 0x09, CHR 0x0A, CHR 0x0B, CHR 0x0C, CHR 0x0D})"

definition digits_value :: "string \<Rightarrow> nat" where
  "digits_value ds = foldl (\<lambda>n c. 10 * n + digit_value c) 0 ds"

text \<open>An exponent part \<^verbatim>\<open>e[+-]digits\<close>; it counts only when a digit follows.\<close>

definition exponent :: "string \<Rightarrow> int" where
  "exponent s =
     (case s of
        [] \<Rightarrow> 0
      | c # r \<Rightarrow>
          if c = CHR ''e'' \<or> c = CHR ''E'' then
            (let neg = startsWith r ''-'';
                 r1 = (if startsWith r ''-'' \<or> startsWith r ''+'' then tl r else r);
                 ds = takeWhile is_digit r1
             in if ds = [] then 0
                else if neg then - int (digits_value ds) else int (digits_value ds))
          else 0)"

definition pow10 :: "int \<Rightarrow> rat" where
  "pow10 e = (if e < 0 then 1 / 10 ^ nat (- e) else 10 ^ nat e)"

text \<open>
  The unsigned part: \<^verbatim>\<open>Infinity\<close>, or the longest prefix
  \<^verbatim>\<open>digits[.digits][exponent]\<close> or \<^verbatim>\<open>.digits[exponent]\<close>; \<open>NaN\<close> when there is
  no digit at all.  Whatever follows the prefix is ignored: \<^verbatim>\<open>parseFloat("1,200")\<close> is 1.
\<close>

definition unsigned_float :: "string \<Rightarrow> jsnum" where
  "unsigned_float s =
     (if startsWith s ''Infinity'' then PosInf
      else
        (let ip = takeWhile is_digit s;
             r = dropWhile is_digit s;
             fp = (if startsWith r ''.'' then takeWhile is_digit (tl r) else []);
             r1 = (if startsWith r ''.'' then dropWhile is_digit (tl r) else r)
         in if ip = [] \<and> fp = [] then NaN
            else Fin ((of_nat (digits_value ip) + of_nat (digits_value fp) / 10 ^ length fp)
                      * pow10 (exponent r1))))"

fun negate :: "jsnum \<Rightarrow> jsnum" where
  "negate NaN = NaN"
| "negate NegInf = PosInf"
| "negate (Fin r) = Fin (- r)"
| "negate PosInf = NegInf"

definition parseFloat :: "string \<Rightarrow> jsnum" where
  "parseFloat s =
     (let t = dropWhile is_space s
      in if startsWith t ''-'' then negate (unsigned_float (tl t))
         else if startsWith t ''+'' then unsigned_float (tl t)
         else unsigned_float t)"

section \<open>PointsCalculator\<close>

text \<open>\<^verbatim>\<open>pin_points\<close> arrives as a number or as a string.\<close>

datatype points = PNumber jsnum | PString string

definition multipliers :: "(char \<times> rat) list" where
  "multipliers = [(CHR ''K'', 1000), (CHR ''M'', 1000000)]"

text \<open>
  \<^verbatim>\<open>parsePoints\<close>.  The loop over \<^verbatim>\<open>Object.entries(multipliers)\<close> leaves at the first
  suffix that \<^verbatim>\<open>points.includes\<close>; the product is computed from \<^verbatim>\<open>points\<close> with the
  first occurrence of the suffix removed (\<^verbatim>\<open>points.replace(suffix, "")\<close>), not from the
  comma-free \<^verbatim>\<open>numericValue\<close>.  The final \<^verbatim>\<open>parseFloat\<close> of a number is the identity.
\<close>

definition parsePoints :: "points \<Rightarrow> jsnum" where
  "parsePoints p =
     (case p of
        PNumber n \<Rightarrow> n
      | PString s \<Rightarrow>
          (let numericValue = filter (\<lambda>c. c \<noteq> CHR '','') s
           in case find (\<lambda>(suffix, multiplier). suffix \<in> set s) multipliers of
                Some (suffix, multiplier) \<Rightarrow>
                  times_multiplier (parseFloat (remove1 suffix s)) multiplier
              | None \<Rightarrow> parseFloat numericValue))"

section \<open>The remote service, the clock and the files\<close>

type_synonym token = string
type_synonym userId = string

text \<open>
  Response payloads, with the fields the program reads.  \<open>coin_type\<close> is the field
  \<^verbatim>\<open>type\<close> of a coin.
\<close>

record coin =
  coin_type :: string
  count :: int

record model =
  name :: string
  current_level :: int

record home =
  pin_points :: points
  coins :: "coin list"
  current_model :: model
  data_power :: int

record cost_config =
  level :: int
  cost :: rat

record checkin =
  is_today_checkin :: int

record task =
  task_id :: int
  task_name :: string
  is_complete :: bool
  reward_points :: int
  checkin_detail :: "checkin option"

datatype endpoint =
    PassportLoginTelegram | Home | HomeCollect | ModelList | ModelUpgrade
  | TaskList | TaskComplete int

datatype payload = LoginPayload string string | CollectPayload string int | EmptyPayload

datatype request =
    Post endpoint payload "token option"
  | Get endpoint "token option"

text \<open>
  \<^verbatim>\<open>response.data\<close>.  \<open>NoBody\<close> is a body that is \<^verbatim>\<open>undefined\<close>; a body of another
  shape than the one a caller reads lacks the fields that caller reads.
\<close>

datatype body =
    LoginBody "token option"
  | HomeBody home
  | CoinsBody "coin list"
  | CostBody "cost_config list"
  | TasksBody "task list"
  | StatusBody string
  | NoBody

text \<open>\<open>Failed\<close>: axios throws (network failure, or a status it rejects).\<close>

datatype http_result = Failed | Response int body

text \<open>The decoded claims segment of a bearer token.\<close>

record claims =
  exp :: "int option"

text \<open>
  Everything outside the program.  \<open>server\<close> answers the \<open>k\<close>-th request of the run,
  \<open>clock\<close> is the \<open>k\<close>-th reading of \<^verbatim>\<open>DateTime.now()\<close> in epoch seconds,
  \<open>decodePayload\<close> is \<^verbatim>\<open>JSON.parse(Buffer.from(payload, "base64").toString())\<close> and
  \<open>parseUser\<close> is \<^verbatim>\<open>JSON.parse(decodeURIComponent(segment)).id\<close>; both may throw.
\<close>

record world =
  server :: "nat \<Rightarrow> request \<Rightarrow> http_result"
  clock :: "nat \<Rightarrow> int"
  decodePayload :: "string \<Rightarrow> error + claims"
  parseUser :: "string \<Rightarrow> error + userId"

text \<open>
  \<^verbatim>\<open>token.json\<close>: absent, present but not parsable, a JSON object from account id to
  access token, the JSON text \<^verbatim>\<open>null\<close>, or a JSON number, string or boolean.  (A file
  that holds a JSON array is not modelled.)
\<close>

datatype token_file =
    Missing | Unparsable | Tokens "(userId \<times> token) list" | JsonNull | JsonScalar

text \<open>
  What \<^verbatim>\<open>loadTokens\<close> returns: an object, or the \<^verbatim>\<open>null\<close> or the primitive value
  that the file holds.
\<close>

datatype token_data = Object "(userId \<times> token) list" | Null | Scalar

datatype level = Info | Warn | Error

datatype success_message = DailyCheckin | TaskReward string int

datatype event =
    Sent request
  | Logged level string
  | Announced success_message
  | Countdown nat

text \<open>The state of a run; \<open>events\<close> holds the newest event first.\<close>

record state =
  calls :: nat
  ticks :: nat
  tokenFile :: token_file
  writable :: bool
  events :: "event list"

definition logger :: "level \<Rightarrow> string \<Rightarrow> state \<Rightarrow> state" where
  "logger l m st = st\<lparr>events := Logged l m # events st\<rparr>"

definition countdown :: "nat \<Rightarrow> state \<Rightarrow> state" where
  "countdown seconds st = st\<lparr>events := Countdown seconds # events st\<rparr>"

section \<open>ApiService\<close>

text \<open>\<^verbatim>\<open>token ? {...headers, Authorization} : headers\<close>: an empty token is falsy.\<close>

definition bearer :: "token option \<Rightarrow> token option" where
  "bearer t = (case t of None \<Rightarrow> None | Some s \<Rightarrow> if s = [] then None else Some s)"

definition send :: "world \<Rightarrow> request \<Rightarrow> string \<Rightarrow> state \<Rightarrow> (error + int \<times> body) \<times> state" where
  "send w req failure st =
     (let st1 = st\<lparr>calls := Suc (calls st), events := Sent req # events st\<rparr>
      in case server w (calls st) req of
           Failed \<Rightarrow> (Inl TransportError, logger Error failure st1)
         | Response status data \<Rightarrow> (Inr (status, data), st1))"

definition post ::
  "world \<Rightarrow> endpoint \<Rightarrow> payload \<Rightarrow> token option \<Rightarrow> state \<Rightarrow> (error + int \<times> body) \<times> state" where
  "post w ep data t st = send w (Post ep data (bearer t)) ''API POST Error'' st"

definition get ::
  "world \<Rightarrow> endpoint \<Rightarrow> token option \<Rightarrow> state \<Rightarrow> (error + int \<times> body) \<times> state" where
  "get w ep t st = send w (Get ep (bearer t)) ''API GET Error'' st"

section \<open>TokenManager\<close>

definition loadTokens :: "state \<Rightarrow> token_data \<times> state" where
  "loadTokens st =
     (case tokenFile st of
        Missing \<Rightarrow> (Object [], st)
      | Unparsable \<Rightarrow> (Object [], logger Error ''Error loading tokens'' st)
      | Tokens m \<Rightarrow> (Object m, st)
      | JsonNull \<Rightarrow> (Null, st)
      | JsonScalar \<Rightarrow> (Scalar, st))"

text \<open>
  \<^verbatim>\<open>tokens[userId] = { access_token: token }\<close> replaces the entry of \<open>userId\<close> or adds
  one.  The assignment throws when \<^verbatim>\<open>tokens\<close> is \<^verbatim>\<open>null\<close> or a primitive value (a
  class body is strict code), and \<^verbatim>\<open>writeFileSync\<close> throws when the file cannot be
  written; both are caught.
\<close>

definition saveToken :: "userId \<Rightarrow> token \<Rightarrow> state \<Rightarrow> state" where
  "saveToken uid t st =
     (let (tokens, st1) = loadTokens st
      in case tokens of
           Object m \<Rightarrow>
             if writable st1
             then logger Info ''Token saved for account''
                    (st1\<lparr>tokenFile := Tokens (AList.update uid t m)\<rparr>)
             else logger Error ''Error saving token'' st1
         | Null \<Rightarrow> logger Error ''Error saving token'' st1
         | Scalar \<Rightarrow> logger Error ''Error saving token'' st1)"

text \<open>
  \<^verbatim>\<open>isExpired\<close>.  \<^verbatim>\<open>const [, payload] = token.split(".")\<close> leaves \<^verbatim>\<open>payload\<close>
  undefined when the token has no dot, and \<^verbatim>\<open>Buffer.from(undefined, "base64")\<close>
  throws.  \<^verbatim>\<open>if (decodedPayload.exp)\<close> is a truthiness test: 0 is falsy.
\<close>

definition isExpired :: "world \<Rightarrow> token \<Rightarrow> state \<Rightarrow> bool \<times> state" where
  "isExpired w t st =
     (case (case at_index (split_str t ''.'') 1 of
              None \<Rightarrow> Inl TypeError
            | Some payload \<Rightarrow> decodePayload w payload) of
        Inl e \<Rightarrow> (True, logger Error ''Error checking token expiration'' st)
      | Inr decodedPayload \<Rightarrow>
          (let now = clock w (ticks st);
               st1 = st\<lparr>ticks := Suc (ticks st)\<rparr>
           in case exp decodedPayload of
                None \<Rightarrow> (False, st1)
              | Some e \<Rightarrow>
                  if e \<noteq> 0 then (e < now, logger Info ''Token expires at'' st1)
                  else (False, st1)))"

section \<open>PinAi\<close>

definition loginToPinaiAPI :: "world \<Rightarrow> string \<Rightarrow> state \<Rightarrow> token option \<times> state" where
  "loginToPinaiAPI w initData st =
     (case post w PassportLoginTelegram (LoginPayload ''pBVlK4n'' initData) None st of
        (Inl e, st1) \<Rightarrow> (None, logger Error ''Login failed'' st1)
      | (Inr (status, data), st1) \<Rightarrow>
          if status = 200 then
            (let st2 = logger Info ''Login successful'' st1
             in case data of
                  LoginBody access_token \<Rightarrow> (access_token, st2)
                | NoBody \<Rightarrow> (None, logger Error ''Login failed'' st2)
                | _ \<Rightarrow> (None, st2))
          else (None, st1))"

definition logHomeData :: "model \<Rightarrow> int \<Rightarrow> points \<Rightarrow> state \<Rightarrow> state" where
  "logHomeData currentModel dataPower pts st =
     logger Info ''Balance''
       (logger Info ''Data Power''
         (logger Info ''Current Level''
           (logger Info ''Current Model'' st)))"

definition upgradeModel :: "world \<Rightarrow> token \<Rightarrow> int \<Rightarrow> state \<Rightarrow> state" where
  "upgradeModel w t newLevel st =
     (case post w ModelUpgrade EmptyPayload (Some t) st of
        (Inl e, st1) \<Rightarrow> logger Error ''Error upgrading model'' st1
      | (Inr (status, data), st1) \<Rightarrow>
          if status = 200 then logger Info ''Model upgraded to level'' st1 else st1)"

definition checkAndUpgradeModel :: "world \<Rightarrow> token \<Rightarrow> points \<Rightarrow> int \<Rightarrow> state \<Rightarrow> state" where
  "checkAndUpgradeModel w t currentPoints currentLevel st =
     (case get w ModelList (Some t) st of
        (Inl e, st1) \<Rightarrow> logger Error ''Error checking upgrade possibility'' st1
      | (Inr (status, data), st1) \<Rightarrow>
          if status = 200 then
            (case data of
               CostBody configs \<Rightarrow>
                 (case find (\<lambda>config. level config = currentLevel + 1) configs of
                    None \<Rightarrow> st1
                  | Some nextLevelCost \<Rightarrow>
                      (let numericPoints = parsePoints currentPoints
                       in if js_ge numericPoints (cost nextLevelCost)
                          then upgradeModel w t (currentLevel + 1) st1
                          else logger Warn ''Insufficient balance for upgrade to level'' st1))
             | _ \<Rightarrow> logger Error ''Error checking upgrade possibility'' st1)
          else st1)"

text \<open>
  One turn of the \<^verbatim>\<open>while (coin.count > 0)\<close> loop of \<^verbatim>\<open>collectCoins\<close>: go round
  again with the updated coin, leave the loop, or throw.
\<close>

datatype iteration = Repeat coin state | Break state | Throw error state

definition collectBody :: "world \<Rightarrow> token \<Rightarrow> coin \<Rightarrow> state \<Rightarrow> iteration" where
  "collectBody w t c st =
     (case post w HomeCollect (CollectPayload (coin_type c) (count c)) (Some t) st of
        (Inl e, st1) \<Rightarrow> Throw e st1
      | (Inr (status, data), st1) \<Rightarrow>
          if status = 200 then
            (case data of
               CoinsBody cs \<Rightarrow>
                 (case find (\<lambda>x. coin_type x = ''Telegram'') cs of
                    None \<Rightarrow> Throw TypeError st1
                  | Some found \<Rightarrow>
                      (let c' = c\<lparr>count := count found\<rparr>;
                           st2 = logger Info ''Coins collected, remaining'' st1
                       in if count c' = 0 then Break st2
                          else Repeat c' (countdown 2 st2)))
             | _ \<Rightarrow> Throw TypeError st1)
          else Break st1)"

text \<open>The loop has no bound of its own: \<open>None\<close> is a loop that never ends.\<close>

partial_function (option) collectLoop ::
  "world \<Rightarrow> token \<Rightarrow> coin \<Rightarrow> state \<Rightarrow> ((error + unit) \<times> state) option" where
  "collectLoop w t c st =
     (if 0 < count c then
        (case collectBody w t c st of
           Repeat c' st' \<Rightarrow> collectLoop w t c' st'
         | Break st' \<Rightarrow> Some (Inr (), st')
         | Throw e st' \<Rightarrow> Some (Inl e, st'))
      else Some (Inr (), st))"

declare collectLoop.simps [code]

text \<open>
  \<^verbatim>\<open>collectCoins\<close>: the \<^verbatim>\<open>try\<close> around the loop.  The result is \<open>Inl\<close> when an error
  leaves the function.
\<close>

definition collectCoins ::
  "world \<Rightarrow> token \<Rightarrow> coin \<Rightarrow> state \<Rightarrow> ((error + unit) \<times> state) option" where
  "collectCoins w t c st =
     (case collectLoop w t c st of
        None \<Rightarrow> None
      | Some (Inl e, st') \<Rightarrow> Some (Inr (), logger Error ''Error collecting coins'' st')
      | Some (Inr u, st') \<Rightarrow> Some (Inr (), logger Info ''All coins collected'' st'))"

definition getHomeData :: "world \<Rightarrow> token \<Rightarrow> bool \<Rightarrow> state \<Rightarrow> state option" where
  "getHomeData w t shouldUpgrade st =
     (case get w Home (Some t) st of
        (Inl e, st1) \<Rightarrow> Some (logger Error ''Error fetching home data'' st1)
      | (Inr (status, data), st1) \<Rightarrow>
          if status = 200 then
            (case data of
               HomeBody h \<Rightarrow>
                 (let st2 = logHomeData (current_model h) (data_power h) (pin_points h) st1;
                      coinToCollect = find (\<lambda>c. coin_type c = ''Telegram'') (coins h)
                  in case (case coinToCollect of
                             None \<Rightarrow> Some (Inr (), st2)
                           | Some c \<Rightarrow>
                               if 0 < count c then collectCoins w t c st2
                               else Some (Inr (), st2)) of
                       None \<Rightarrow> None
                     | Some (Inl e, st3) \<Rightarrow> Some (logger Error ''Error fetching home data'' st3)
                     | Some (Inr u, st3) \<Rightarrow>
                         Some (if shouldUpgrade
                               then checkAndUpgradeModel w t (pin_points h)
                                      (current_level (current_model h)) st3
                               else st3))
             | _ \<Rightarrow> Some (logger Error ''Error fetching home data'' st1))
          else Some st1)"

definition completeTask :: "world \<Rightarrow> token \<Rightarrow> int \<Rightarrow> success_message \<Rightarrow> state \<Rightarrow> state" where
  "completeTask w t taskId successMessage st =
     (case post w (TaskComplete taskId) EmptyPayload (Some t) st of
        (Inl e, st1) \<Rightarrow> logger Error ''Error completing task'' st1
      | (Inr (status, data), st1) \<Rightarrow>
          if status = 200 then
            (case data of
               StatusBody s \<Rightarrow>
                 if s = ''success''
                 then st1\<lparr>events := Announced successMessage # events st1\<rparr>
                 else st1
             | NoBody \<Rightarrow> logger Error ''Error completing task'' st1
             | _ \<Rightarrow> st1)
          else st1)"

text \<open>
  The body of the loop over the tasks.  \<^verbatim>\<open>task.checkin_detail.is_today_checkin\<close> is
  read only for the task 1001 and throws when that task has no \<^verbatim>\<open>checkin_detail\<close>.
\<close>

definition handleTask :: "world \<Rightarrow> token \<Rightarrow> task \<Rightarrow> state \<Rightarrow> (error + unit) \<times> state" where
  "handleTask w t task st =
     (case (if task_id task = 1001
            then (case checkin_detail task of
                    None \<Rightarrow> Inl TypeError
                  | Some d \<Rightarrow> Inr (is_today_checkin d = 0))
            else Inr False) of
        Inl e \<Rightarrow> (Inl e, st)
      | Inr checkinDue \<Rightarrow>
          if checkinDue then (Inr (), completeTask w t (task_id task) DailyCheckin st)
          else if \<not> is_complete task
          then (Inr (), completeTask w t (task_id task)
                          (TaskReward (task_name task) (reward_points task)) st)
          else (Inr (), st))"

fun forTasks :: "world \<Rightarrow> token \<Rightarrow> task list \<Rightarrow> state \<Rightarrow> (error + unit) \<times> state" where
  "forTasks w t [] st = (Inr (), st)"
| "forTasks w t (task # tasks) st =
     (case handleTask w t task st of
        (Inl e, st1) \<Rightarrow> (Inl e, st1)
      | (Inr u, st1) \<Rightarrow> forTasks w t tasks st1)"

definition getTasks :: "world \<Rightarrow> token \<Rightarrow> state \<Rightarrow> state" where
  "getTasks w t st =
     (case get w TaskList (Some t) st of
        (Inl e, st1) \<Rightarrow> logger Error ''Error fetching tasks'' st1
      | (Inr (status, data), st1) \<Rightarrow>
          if status = 200 then
            (case data of
               TasksBody tasks \<Rightarrow>
                 (case forTasks w t tasks st1 of
                    (Inl e, st2) \<Rightarrow> logger Error ''Error fetching tasks'' st2
                  | (Inr u, st2) \<Rightarrow> st2)
             | _ \<Rightarrow> logger Error ''Error fetching tasks'' st1)
          else st1)"

subsection \<open>The orchestration loop\<close>

text \<open>\<^verbatim>\<open>JSON.parse(decodeURIComponent(initData.split("user=")[1].split("&")[0])).id\<close>\<close>

definition extractUserId :: "world \<Rightarrow> string \<Rightarrow> error + userId" where
  "extractUserId w initData =
     (case at_index (split_str initData ''user='') 1 of
        None \<Rightarrow> Inl TypeError
      | Some rest \<Rightarrow>
          (case at_index (split_str rest ''&'') 0 of
             None \<Rightarrow> Inl TypeError
           | Some segment \<Rightarrow> parseUser w segment))"

text \<open>
  \<^verbatim>\<open>tokenData[userId]?.access_token\<close>: reading a property of \<^verbatim>\<open>null\<close> throws; a
  primitive value has no such property.
\<close>

definition accessToken :: "token_data \<Rightarrow> userId \<Rightarrow> error + token option" where
  "accessToken tokenData uid =
     (case tokenData of
        Object m \<Rightarrow> Inr (map_of m uid)
      | Null \<Rightarrow> Inl TypeError
      | Scalar \<Rightarrow> Inr None)"

text \<open>
  The test \<^verbatim>\<open>!currentToken || isExpired(currentToken)\<close>: \<open>None\<close> when it holds, the
  cached token otherwise.  An empty token is falsy.
\<close>

definition cachedToken :: "world \<Rightarrow> token option \<Rightarrow> state \<Rightarrow> token option \<times> state" where
  "cachedToken w currentToken st =
     (case currentToken of
        None \<Rightarrow> (None, st)
      | Some t \<Rightarrow>
          if t = [] then (None, st)
          else (case isExpired w t st of
                  (True, st1) \<Rightarrow> (None, st1)
                | (False, st1) \<Rightarrow> (Some t, st1)))"

definition runEngines :: "world \<Rightarrow> token \<Rightarrow> bool \<Rightarrow> state \<Rightarrow> state option" where
  "runEngines w t shouldUpgrade st =
     (case getHomeData w t shouldUpgrade st of
        None \<Rightarrow> None
      | Some st1 \<Rightarrow> Some (getTasks w t st1))"

text \<open>The body of the loop over the accounts; \<open>tokenData\<close> is what \<^verbatim>\<open>main\<close> loaded.\<close>

definition processAccount ::
  "world \<Rightarrow> token_data \<Rightarrow> bool \<Rightarrow> string \<Rightarrow> state \<Rightarrow> ((error + unit) \<times> state) option" where
  "processAccount w tokenData shouldUpgrade initData st =
     (case extractUserId w initData of
        Inl e \<Rightarrow> Some (Inl e, st)
      | Inr uid \<Rightarrow>
          (case accessToken tokenData uid of
             Inl e \<Rightarrow> Some (Inl e, logger Info ''Processing Account'' st)
           | Inr currentToken \<Rightarrow>
               (case cachedToken w currentToken (logger Info ''Processing Account'' st) of
                  (None, st1) \<Rightarrow>
                    (case loginToPinaiAPI w initData
                            (logger Warn ''Token invalid/expired for account'' st1) of
                       (None, st2) \<Rightarrow> Some (Inr (), countdown 3 st2)
                     | (Some newToken, st2) \<Rightarrow>
                         if newToken = [] then Some (Inr (), countdown 3 st2)
                         else (case runEngines w newToken shouldUpgrade
                                      (saveToken uid newToken st2) of
                                 None \<Rightarrow> None
                               | Some st3 \<Rightarrow> Some (Inr (), countdown 3 st3)))
                | (Some t, st1) \<Rightarrow>
                    (case runEngines w t shouldUpgrade st1 of
                       None \<Rightarrow> None
                     | Some st3 \<Rightarrow> Some (Inr (), countdown 3 st3)))))"

fun forAccounts ::
  "world \<Rightarrow> token_data \<Rightarrow> bool \<Rightarrow> string list \<Rightarrow> state
     \<Rightarrow> ((error + unit) \<times> state) option" where
  "forAccounts w tokenData shouldUpgrade [] st = Some (Inr (), st)"
| "forAccounts w tokenData shouldUpgrade (initData # rest) st =
     (case processAccount w tokenData shouldUpgrade initData st of
        None \<Rightarrow> None
      | Some (Inl e, st1) \<Rightarrow> Some (Inl e, st1)
      | Some (Inr u, st1) \<Rightarrow> forAccounts w tokenData shouldUpgrade rest st1)"

text \<open>
  \<^verbatim>\<open>while (true)\<close> has no exit of its own; \<open>passes\<close> runs its first \<open>n\<close> turns and
  returns \<open>Inr\<close> when all of them ended without an error.
\<close>

fun passes ::
  "world \<Rightarrow> token_data \<Rightarrow> bool \<Rightarrow> string list \<Rightarrow> nat \<Rightarrow> state
     \<Rightarrow> ((error + unit) \<times> state) option" where
  "passes w tokenData shouldUpgrade data 0 st = Some (Inr (), st)"
| "passes w tokenData shouldUpgrade data (Suc n) st =
     (case forAccounts w tokenData shouldUpgrade data st of
        None \<Rightarrow> None
      | Some (Inl e, st1) \<Rightarrow> Some (Inl e, st1)
      | Some (Inr u, st1) \<Rightarrow> passes w tokenData shouldUpgrade data n (countdown 86400 st1))"

text \<open>
  \<open>Exit c\<close>: \<^verbatim>\<open>process.exit(c)\<close> was called; \<open>Looping\<close>: the first \<open>n\<close> passes are
  done and the process goes on.
\<close>

datatype outcome = Exit nat | Looping

text \<open>
  \<^verbatim>\<open>.replace(/\r/g, "").split("\n").filter(Boolean)\<close>: the non-empty lines of
  \<^verbatim>\<open>data.txt\<close>.
\<close>

definition dataLines :: "string \<Rightarrow> string list" where
  "dataLines content =
     filter (\<lambda>line. line \<noteq> [])
       (split_str (filter (\<lambda>c. c \<noteq> CHR 0x0D) content) [CHR 0x0A])"

text \<open>
  \<^verbatim>\<open>main\<close>, with the content of \<^verbatim>\<open>data.txt\<close> (\<open>None\<close> when it cannot be read).  One
  \<^verbatim>\<open>try\<close> encloses the reading of the file and the whole loop; its handler logs and
  calls \<^verbatim>\<open>process.exit(1)\<close>.  \<open>tokenData\<close> is loaded once, before the loop.
\<close>

definition main :: "world \<Rightarrow> string option \<Rightarrow> nat \<Rightarrow> state \<Rightarrow> (outcome \<times> state) option" where
  "main w dataFile n st =
     (case dataFile of
        None \<Rightarrow> Some (Exit 1, logger Error ''Main process error'' st)
      | Some content \<Rightarrow>
          (let data = dataLines content;
               shouldUpgrade = True;
               (tokenData, st1) = loadTokens st
           in case passes w tokenData shouldUpgrade data n st1 of
                None \<Rightarrow> None
              | Some (Inl e, st2) \<Rightarrow> Some (Exit 1, logger Error ''Main process error'' st2)
              | Some (Inr u, st2) \<Rightarrow> Some (Looping, st2)))"

section \<open>Auxiliary notions and concrete runs\<close>

text \<open>The records that \<^verbatim>\<open>loadTokens\<close> finds in a token file.\<close>

definition records :: "token_file \<Rightarrow> (userId \<times> token) list" where
  "records f = (case f of Tokens m \<Rightarrow> m | _ \<Rightarrow> [])"

text \<open>A sequence of calls of \<^verbatim>\<open>saveToken\<close>, in order.\<close>

fun saveAll :: "(userId \<times> token) list \<Rightarrow> state \<Rightarrow> state" where
  "saveAll [] st = st"
| "saveAll ((uid, t) # ops) st = saveAll ops (saveToken uid t st)"

text \<open>The state at the start of a first run: no token file yet, nothing logged.\<close>

definition fresh :: state where
  "fresh = \<lparr>calls = 0, ticks = 0, tokenFile = Missing, writable = True, events = []\<rparr>"

definition two_accounts :: state where
  "two_accounts = fresh\<lparr>tokenFile := Tokens [(''7'', ''old''), (''8'', ''other'')]\<rparr>"

text \<open>
  The decoders of the concrete runs.  They give what the library calls give on the texts
  that the runs use: the claims segments \<^verbatim>\<open>eyJleHAiOjB9\<close> and
  \<^verbatim>\<open>eyJleHAiOjIwMDAwMDAwMDB9\<close> are the base64 texts of \<^verbatim>\<open>{"exp":0}\<close> and
  \<^verbatim>\<open>{"exp":2000000000}\<close>, and the user segment \<^verbatim>\<open>%7B%22id%22%3A42%7D\<close> is the
  URI-encoded text of \<^verbatim>\<open>{"id":42}\<close>.  No run uses another text.
\<close>

definition sample_decodePayload :: "string \<Rightarrow> error + claims" where
  "sample_decodePayload p =
     (if p = ''eyJleHAiOjB9'' then Inr \<lparr>exp = Some 0\<rparr>
      else if p = ''eyJleHAiOjIwMDAwMDAwMDB9'' then Inr \<lparr>exp = Some 2000000000\<rparr>
      else Inl SyntaxError)"

definition sample_parseUser :: "string \<Rightarrow> error + userId" where
  "sample_parseUser s = (if s = ''%7B%22id%22%3A42%7D'' then Inr ''42'' else Inl SyntaxError)"

text \<open>A world whose clock reads 1700000000 and in which no request is answered.\<close>

definition epoch_world :: world where
  "epoch_world =
     \<lparr>server = (\<lambda>k r. Failed),
      clock = (\<lambda>k. 1700000000),
      decodePayload = sample_decodePayload,
      parseUser = sample_parseUser\<rparr>"

text \<open>Observers of a run: the upgrade requests sent and the warnings logged so far.\<close>

definition is_upgrade :: "event \<Rightarrow> bool" where
  "is_upgrade e = (case e of Sent (Post ep p tok) \<Rightarrow> ep = ModelUpgrade | _ \<Rightarrow> False)"

definition is_warning :: "event \<Rightarrow> bool" where
  "is_warning e = (case e of Logged l m \<Rightarrow> l = Warn | _ \<Rightarrow> False)"

definition upgradeRequests :: "state \<Rightarrow> nat" where
  "upgradeRequests st = length (filter is_upgrade (events st))"

definition warnings :: "state \<Rightarrow> nat" where
  "warnings st = length (filter is_warning (events st))"

text \<open>
  The entry for \<open>currentLevel + 1\<close> of the cost table that the service returns to the
  next request, if it returns one with status 200.
\<close>

definition costEntry :: "world \<Rightarrow> token \<Rightarrow> int \<Rightarrow> state \<Rightarrow> cost_config option" where
  "costEntry w t currentLevel st =
     (case server w (calls st) (Get ModelList (bearer (Some t))) of
        Response status (CostBody configs) \<Rightarrow>
          if status = 200 then find (\<lambda>config. level config = currentLevel + 1) configs else None
      | _ \<Rightarrow> None)"

text \<open>A service with a cost table for the levels 2 and 3 that accepts every upgrade.\<close>

definition shop_world :: world where
  "shop_world =
     \<lparr>server =
        (\<lambda>k r. case r of
                  Get ep tok \<Rightarrow>
                    if ep = ModelList
                    then Response 200
                           (CostBody [\<lparr>level = 2, cost = 1000\<rparr>, \<lparr>level = 3, cost = 5000\<rparr>])
                    else Failed
                | Post ep p tok \<Rightarrow> if ep = ModelUpgrade then Response 200 NoBody else Failed),
      clock = (\<lambda>k. 1700000000),
      decodePayload = sample_decodePayload,
      parseUser = sample_parseUser\<rparr>"

text \<open>
  Three tasks: the daily check-in already done today but not marked complete, the daily
  check-in still due although marked complete, and an ordinary open task.
\<close>

definition daily :: task where
  "daily = \<lparr>task_id = 1001, task_name = ''Daily check-in'', is_complete = False,
            reward_points = 100, checkin_detail = Some \<lparr>is_today_checkin = 1\<rparr>\<rparr>"

definition daily_due :: task where
  "daily_due = \<lparr>task_id = 1001, task_name = ''Daily check-in'', is_complete = True,
                reward_points = 100, checkin_detail = Some \<lparr>is_today_checkin = 0\<rparr>\<rparr>"

definition quiz :: task where
  "quiz = \<lparr>task_id = 7, task_name = ''Quiz'', is_complete = False,
           reward_points = 50, checkin_detail = None\<rparr>"

text \<open>A service whose task list is \<open>[daily]\<close> and that completes the task 1001.\<close>

definition task_world :: world where
  "task_world =
     \<lparr>server =
        (\<lambda>k r. case r of
                  Get ep tok \<Rightarrow> if ep = TaskList then Response 200 (TasksBody [daily]) else Failed
                | Post ep p tok \<Rightarrow>
                    if ep = TaskComplete 1001 then Response 200 (StatusBody ''success'')
                    else Failed),
      clock = (\<lambda>k. 1700000000),
      decodePayload = sample_decodePayload,
      parseUser = sample_parseUser\<rparr>"

text \<open>
  The claim request for a coin, the state right after it was sent, the state right after
  the home data was requested, and the coin of the tracked type in a coin list.
\<close>

definition claimRequest :: "token \<Rightarrow> coin \<Rightarrow> request" where
  "claimRequest t c = Post HomeCollect (CollectPayload (coin_type c) (count c)) (bearer (Some t))"

definition claimed :: "token \<Rightarrow> coin \<Rightarrow> state \<Rightarrow> state" where
  "claimed t c st = st\<lparr>calls := Suc (calls st), events := Sent (claimRequest t c) # events st\<rparr>"

definition telegram :: "coin list \<Rightarrow> coin option" where
  "telegram cs = find (\<lambda>x. coin_type x = ''Telegram'') cs"

definition fetched :: "token \<Rightarrow> state \<Rightarrow> state" where
  "fetched t st = st\<lparr>calls := Suc (calls st), events := Sent (Get Home (bearer (Some t))) # events st\<rparr>"

definition telegram5 :: coin where
  "telegram5 = \<lparr>coin_type = ''Telegram'', count = 5\<rparr>"

text \<open>
  Services for the claim loop: one that always reports 5 coins left, one that reports
  one coin less than was sent, one that answers every request with status 204, and one
  whose home data holds 5 Telegram coins but whose claim answer lists no Telegram coin.
\<close>

definition stubborn_world :: world where
  "stubborn_world =
     \<lparr>server = (\<lambda>k r. Response 200 (CoinsBody [\<lparr>coin_type = ''Telegram'', count = 5\<rparr>])),
      clock = (\<lambda>k. 1700000000),
      decodePayload = sample_decodePayload,
      parseUser = sample_parseUser\<rparr>"

definition draining_world :: world where
  "draining_world =
     \<lparr>server =
        (\<lambda>k r. case r of
                  Post ep (CollectPayload ty n) tok \<Rightarrow>
                    Response 200 (CoinsBody [\<lparr>coin_type = ''Telegram'', count = n - 1\<rparr>])
                | _ \<Rightarrow> Failed),
      clock = (\<lambda>k. 1700000000),
      decodePayload = sample_decodePayload,
      parseUser = sample_parseUser\<rparr>"

definition coinless_home :: home where
  "coinless_home =
     \<lparr>pin_points = PString ''5K'', coins = [\<lparr>coin_type = ''Telegram'', count = 5\<rparr>],
      current_model = \<lparr>name = ''Basic'', current_level = 1\<rparr>, data_power = 3\<rparr>"

definition coinless_world :: world where
  "coinless_world =
     \<lparr>server =
        (\<lambda>k r. case r of
                  Get ep tok \<Rightarrow> if ep = Home then Response 200 (HomeBody coinless_home) else Failed
                | Post ep p tok \<Rightarrow>
                    if ep = HomeCollect
                    then Response 200 (CoinsBody [\<lparr>coin_type = ''Discord'', count = 3\<rparr>])
                    else Failed),
      clock = (\<lambda>k. 1700000000),
      decodePayload = sample_decodePayload,
      parseUser = sample_parseUser\<rparr>"

definition busy_world :: world where
  "busy_world =
     \<lparr>server = (\<lambda>k r. Response 204 NoBody),
      clock = (\<lambda>k. 1700000000),
      decodePayload = sample_decodePayload,
      parseUser = sample_parseUser\<rparr>"

text \<open>
  Observers of a run: the requests sent to the engines' endpoints (every request other
  than the login) and the login requests sent so far.
\<close>

definition is_engine_request :: "event \<Rightarrow> bool" where
  "is_engine_request e =
     (case e of
        Sent (Get ep tok) \<Rightarrow> True
      | Sent (Post ep p tok) \<Rightarrow> ep \<noteq> PassportLoginTelegram
      | _ \<Rightarrow> False)"

definition engineRequests :: "state \<Rightarrow> nat" where
  "engineRequests st = length (filter is_engine_request (events st))"

definition is_login :: "event \<Rightarrow> bool" where
  "is_login e = (case e of Sent (Post ep p tok) \<Rightarrow> ep = PassportLoginTelegram | _ \<Rightarrow> False)"

definition loginRequests :: "state \<Rightarrow> nat" where
  "loginRequests st = length (filter is_login (events st))"

text \<open>
  A service that answers every login with a token whose claims segment is the base64 text
  of \<^verbatim>\<open>{"exp":2000000000}\<close>, an expiration after the clock's 1700000000, and that
  fails every other request; and an account line whose user segment decodes to
  \<^verbatim>\<open>{"id":42}\<close>.
\<close>

definition issued :: token where
  "issued = ''h.eyJleHAiOjIwMDAwMDAwMDB9.s''"

definition account42 :: string where
  "account42 = ''user=%7B%22id%22%3A42%7D''"

definition login_world :: world where
  "login_world =
     \<lparr>server =
        (\<lambda>k r. case r of
                  Post ep p tok \<Rightarrow>
                    if ep = PassportLoginTelegram then Response 200 (LoginBody (Some issued))
                    else Failed
                | Get ep tok \<Rightarrow> Failed),
      clock = (\<lambda>k. 1700000000),
      decodePayload = sample_decodePayload,
      parseUser = sample_parseUser\<rparr>"

text \<open>What a run has come to: its outcome, the token file and the number of logins.\<close>

definition summary :: "(outcome \<times> state) option \<Rightarrow> (outcome \<times> token_file \<times> nat) option" where
  "summary r = map_option (\<lambda>(out, st). (out, tokenFile st, loginRequests st)) r"


text \<open>The start of a run whose \<^verbatim>\<open>token.json\<close> holds the JSON text \<^verbatim>\<open>null\<close>.\<close>

definition null_store :: state where
  "null_store = fresh\<lparr>tokenFile := JsonNull\<rparr>"

section \<open>Properties of the credential store\<close>

lemma loadTokens_records:
  "fst (loadTokens st) = Object m \<Longrightarrow> m = records (tokenFile st)"
  by (simp add: loadTokens_def records_def logger_def split: token_file.splits)

lemma saveToken_records:
  "records (tokenFile (saveToken uid t st)) =
     (case fst (loadTokens st) of
        Object m \<Rightarrow>
          if writable st then AList.update uid t (records (tokenFile st))
          else records (tokenFile st)
      | Null \<Rightarrow> records (tokenFile st)
      | Scalar \<Rightarrow> records (tokenFile st))"
  by (simp add: saveToken_def loadTokens_def records_def logger_def split: token_file.splits)

lemma saveToken_writable: "writable (saveToken uid t st) = writable st"
  by (simp add: saveToken_def loadTokens_def logger_def split: token_file.splits)

lemma saveToken_distinct:
  "distinct (map fst (records (tokenFile st))) \<Longrightarrow>
   distinct (map fst (records (tokenFile (saveToken uid t st))))"
  by (simp add: saveToken_records distinct_update split: token_data.splits)

lemma saveToken_others:
  "k \<noteq> uid \<Longrightarrow>
   map_of (records (tokenFile (saveToken uid t st))) k = map_of (records (tokenFile st)) k"
  by (simp add: saveToken_records update_conv' split: token_data.splits)

lemma saveAll_distinct:
  "distinct (map fst (records (tokenFile st))) \<Longrightarrow>
   distinct (map fst (records (tokenFile (saveAll ops st))))"
proof (induction ops arbitrary: st)
  case Nil
  then show ?case by simp
next
  case (Cons p ops)
  obtain uid t where p: "p = (uid, t)" by (cases p)
  from Cons.prems have "distinct (map fst (records (tokenFile (saveToken uid t st))))"
    by (rule saveToken_distinct)
  from Cons.IH [OF this] show ?case by (simp add: p)
qed

lemma saveAll_others:
  "k \<notin> fst ` set ops \<Longrightarrow>
   map_of (records (tokenFile (saveAll ops st))) k = map_of (records (tokenFile st)) k"
proof (induction ops arbitrary: st)
  case Nil
  show ?case by simp
next
  case (Cons p ops)
  obtain uid t where p: "p = (uid, t)" by (cases p)
  from Cons.prems have k: "k \<noteq> uid" and rest: "k \<notin> fst ` set ops"
    by (auto simp: p)
  have "map_of (records (tokenFile (saveToken uid t st))) k = map_of (records (tokenFile st)) k"
    using k by (rule saveToken_others)
  with Cons.IH [OF rest, of "saveToken uid t st"] show ?case by (simp add: p)
qed

text \<open>
  C9.  \<^verbatim>\<open>saveToken\<close> reads the token file again, sets the entry of the account to the
  new token and writes the whole mapping back: when the file read gives a mapping and the
  file can be written, the file afterwards is that mapping with the one entry replaced or
  added, and the account's record is the new token.  Starting from a file that holds one
  record per account id, every sequence of saves leaves a file with one record per account
  id, and the record of every account that was not saved is what it was.
\<close>

theorem saveToken_store:
  "distinct (map fst (records (tokenFile st))) \<Longrightarrow>
     (\<forall>m. fst (loadTokens st) = Object m \<and> writable st \<longrightarrow>
        tokenFile (saveToken uid t st) = Tokens (AList.update uid t m)
        \<and> map_of (records (tokenFile (saveToken uid t st))) uid = Some t)
     \<and> distinct (map fst (records (tokenFile (saveAll ops st))))
     \<and> (\<forall>k. k \<notin> fst ` set ops \<longrightarrow>
           map_of (records (tokenFile (saveAll ops st))) k = map_of (records (tokenFile st)) k)"
proof (intro conjI impI allI)
  fix m
  assume a: "fst (loadTokens st) = Object m \<and> writable st"
  then show "tokenFile (saveToken uid t st) = Tokens (AList.update uid t m)"
    by (auto simp: saveToken_def loadTokens_def logger_def split: token_file.splits)
  from a show "map_of (records (tokenFile (saveToken uid t st))) uid = Some t"
    by (simp add: saveToken_records update_conv')
next
  assume "distinct (map fst (records (tokenFile st)))"
  then show "distinct (map fst (records (tokenFile (saveAll ops st))))"
    by (rule saveAll_distinct)
next
  fix k assume "k \<notin> fst ` set ops"
  then show "map_of (records (tokenFile (saveAll ops st))) k = map_of (records (tokenFile st)) k"
    by (rule saveAll_others)
qed

theorem saveToken_store_witness:
  "distinct (map fst (records (tokenFile two_accounts))) \<and> writable two_accounts
   \<and> fst (loadTokens two_accounts) = Object [(''7'', ''old''), (''8'', ''other'')]
   \<and> tokenFile (saveToken ''7'' ''new'' two_accounts) = Tokens [(''7'', ''new''), (''8'', ''other'')]
   \<and> distinct (map fst (records (tokenFile (saveAll [(''7'', ''a''), (''9'', ''b'')] two_accounts))))
   \<and> map_of (records (tokenFile (saveAll [(''7'', ''a''), (''9'', ''b'')] two_accounts))) ''8''
       = Some ''other''"
proof -
  have d: "distinct (map fst (records (tokenFile two_accounts)))"
    by (simp add: two_accounts_def fresh_def records_def)
  have w: "writable two_accounts"
    by (simp add: two_accounts_def fresh_def)
  have n: "''8'' \<notin> fst ` set [(''7'', ''a''), (''9'', ''b'')]"
    by simp
  have l: "fst (loadTokens two_accounts) = Object [(''7'', ''old''), (''8'', ''other'')]"
    by (simp add: two_accounts_def fresh_def loadTokens_def)
  have r: "map_of (records (tokenFile two_accounts)) ''8'' = Some ''other''"
    by (simp add: two_accounts_def fresh_def records_def)
  note t = saveToken_store [OF d, of "''7''" "''new''" "[(''7'', ''a''), (''9'', ''b'')]"]
  from t w l have a: "tokenFile (saveToken ''7'' ''new'' two_accounts)
      = Tokens (AList.update ''7'' ''new'' [(''7'', ''old''), (''8'', ''other'')])"
    by blast
  from t have b:
    "distinct (map fst (records (tokenFile (saveAll [(''7'', ''a''), (''9'', ''b'')] two_accounts))))"
    by blast
  from t n have c:
    "map_of (records (tokenFile (saveAll [(''7'', ''a''), (''9'', ''b'')] two_accounts))) ''8''
       = map_of (records (tokenFile two_accounts)) ''8''"
    by blast
  have u: "AList.update ''7'' ''new'' [(''7'', ''old''), (''8'', ''other'')]
      = [(''7'', ''new''), (''8'', ''other'')]"
    by simp
  show ?thesis
    using d w a b c l r u by simp
qed

text \<open>What \<^verbatim>\<open>isExpired\<close> returns, case by case.\<close>

lemma isExpired_result:
  "fst (isExpired w t st) =
     (case at_index (split_str t ''.'') 1 of
        None \<Rightarrow> True
      | Some p \<Rightarrow>
          (case decodePayload w p of
             Inl e \<Rightarrow> True
           | Inr c \<Rightarrow>
               (case exp c of
                  None \<Rightarrow> False
                | Some e \<Rightarrow> e \<noteq> 0 \<and> e < clock w (ticks st))))"
  by (auto simp: isExpired_def Let_def split: option.splits sum.splits)

text \<open>
  C6.  The claim asks \<^verbatim>\<open>isExpired\<close> to return true for every well-formed token whose
  expiration claim lies in the past.  For a token whose claims segment decodes to
  \<^verbatim>\<open>{"exp":0}\<close>, read at 1700000000 seconds after the epoch, the truthiness test
  \<^verbatim>\<open>if (decodedPayload.exp)\<close> takes the claim for absent and the function returns
  false.
\<close>

theorem isExpired_epoch_claim:
  "decodePayload epoch_world ''eyJleHAiOjB9'' = Inr \<lparr>exp = Some 0\<rparr>
   \<and> 0 < clock epoch_world (ticks fresh)
   \<and> fst (isExpired epoch_world ''h.eyJleHAiOjB9.s'' fresh) = False"
  by (simp add: isExpired_def epoch_world_def sample_decodePayload_def fresh_def split_str_def)

section \<open>Properties of the point-balance parser\<close>

lemma parsePoints_number: "parsePoints (PNumber n) = n"
  by (simp add: parsePoints_def)

lemma parsePoints_thousands: "parsePoints (PString ''1,200'') = Fin 1200"
  by code_simp

lemma parsePoints_K: "parsePoints (PString ''5K'') = Fin 5000"
  by code_simp

lemma parsePoints_M: "parsePoints (PString ''2.3M'') = Fin 2300000"
  by code_simp

text \<open>
  C5.  The claim has a string with both commas and a K suffix parse to the comma-free
  numeral times 1000, so \<^verbatim>\<open>"1,200K"\<close> to 1200000.  The code multiplies
  \<^verbatim>\<open>parseFloat(points.replace(suffix, ""))\<close>, which still holds the comma, and
  \<^verbatim>\<open>parseFloat("1,200")\<close> stops at the comma: the result is 1000.
\<close>

theorem parsePoints_commas_with_suffix:
  "parsePoints (PString ''1,200K'') = Fin 1000"
  by code_simp

section \<open>Properties of the upgrade check\<close>

lemma upgradeModel_counts:
  "upgradeRequests (upgradeModel w t l st) = Suc (upgradeRequests st)"
  "warnings (upgradeModel w t l st) = warnings st"
  by (simp_all add: upgradeModel_def post_def send_def Let_def logger_def upgradeRequests_def
        warnings_def is_upgrade_def is_warning_def split: http_result.splits)

lemma check_no_table:
  "costEntry w t lvl st = None \<Longrightarrow>
   upgradeRequests (checkAndUpgradeModel w t pts lvl st) = upgradeRequests st
   \<and> warnings (checkAndUpgradeModel w t pts lvl st) = warnings st"
  by (simp add: costEntry_def checkAndUpgradeModel_def get_def send_def Let_def logger_def
        upgradeRequests_def warnings_def is_upgrade_def is_warning_def
        split: http_result.splits body.splits if_splits)

lemma check_table:
  "costEntry w t lvl st = Some c \<Longrightarrow>
   checkAndUpgradeModel w t pts lvl st =
     (let st1 = st\<lparr>calls := Suc (calls st),
                   events := Sent (Get ModelList (bearer (Some t))) # events st\<rparr>
      in if js_ge (parsePoints pts) (cost c) then upgradeModel w t (lvl + 1) st1
         else logger Warn ''Insufficient balance for upgrade to level'' st1)"
  by (simp add: costEntry_def checkAndUpgradeModel_def get_def send_def Let_def
        split: http_result.splits body.splits if_splits)

lemma check_enough:
  "costEntry w t lvl st = Some c \<Longrightarrow> js_ge (parsePoints pts) (cost c) \<Longrightarrow>
   upgradeRequests (checkAndUpgradeModel w t pts lvl st) = Suc (upgradeRequests st)
   \<and> warnings (checkAndUpgradeModel w t pts lvl st) = warnings st"
  by (simp add: check_table upgradeModel_counts)
     (simp add: upgradeRequests_def warnings_def is_upgrade_def is_warning_def)

lemma check_short:
  "costEntry w t lvl st = Some c \<Longrightarrow> \<not> js_ge (parsePoints pts) (cost c) \<Longrightarrow>
   upgradeRequests (checkAndUpgradeModel w t pts lvl st) = upgradeRequests st
   \<and> warnings (checkAndUpgradeModel w t pts lvl st) = Suc (warnings st)"
  by (simp add: check_table logger_def upgradeRequests_def warnings_def is_upgrade_def is_warning_def)

text \<open>
  C8.  In the upgrade check, an upgrade request is sent if and only if the cost table has
  an entry for \<open>currentLevel + 1\<close> and the parsed balance is at least its cost (and at most
  one request is sent); without such an entry nothing is sent and no warning is logged;
  with an entry and a smaller balance one warning is logged and nothing is sent.
\<close>

theorem upgrade_iff_affordable:
  "(upgradeRequests (checkAndUpgradeModel w t pts lvl st) = Suc (upgradeRequests st)
      \<longleftrightarrow> (\<exists>c. costEntry w t lvl st = Some c \<and> js_ge (parsePoints pts) (cost c)))
   \<and> (upgradeRequests (checkAndUpgradeModel w t pts lvl st) \<noteq> Suc (upgradeRequests st)
        \<longrightarrow> upgradeRequests (checkAndUpgradeModel w t pts lvl st) = upgradeRequests st)
   \<and> (costEntry w t lvl st = None \<longrightarrow>
        upgradeRequests (checkAndUpgradeModel w t pts lvl st) = upgradeRequests st
        \<and> warnings (checkAndUpgradeModel w t pts lvl st) = warnings st)
   \<and> (\<forall>c. costEntry w t lvl st = Some c \<and> \<not> js_ge (parsePoints pts) (cost c) \<longrightarrow>
        upgradeRequests (checkAndUpgradeModel w t pts lvl st) = upgradeRequests st
        \<and> warnings (checkAndUpgradeModel w t pts lvl st) = Suc (warnings st))"
proof (cases "costEntry w t lvl st")
  case None
  with check_no_table [OF None, of pts] show ?thesis by simp
next
  case (Some c)
  show ?thesis
  proof (cases "js_ge (parsePoints pts) (cost c)")
    case True
    with Some check_enough [OF Some True] show ?thesis by simp
  next
    case False
    with Some check_short [OF Some False] show ?thesis by simp
  qed
qed

theorem upgrade_iff_affordable_witness:
  "costEntry shop_world ''tok'' 1 fresh = Some \<lparr>level = 2, cost = 1000\<rparr>
   \<and> js_ge (parsePoints (PString ''5K'')) 1000
   \<and> upgradeRequests (checkAndUpgradeModel shop_world ''tok'' (PString ''5K'') 1 fresh) = 1
   \<and> costEntry shop_world ''tok'' 2 fresh = Some \<lparr>level = 3, cost = 5000\<rparr>
   \<and> \<not> js_ge (parsePoints (PString ''1,200'')) 5000
   \<and> upgradeRequests (checkAndUpgradeModel shop_world ''tok'' (PString ''1,200'') 2 fresh) = 0
   \<and> warnings (checkAndUpgradeModel shop_world ''tok'' (PString ''1,200'') 2 fresh) = 1
   \<and> costEntry shop_world ''tok'' 3 fresh = None
   \<and> upgradeRequests (checkAndUpgradeModel shop_world ''tok'' (PString ''5K'') 3 fresh) = 0
   \<and> warnings (checkAndUpgradeModel shop_world ''tok'' (PString ''5K'') 3 fresh) = 0"
proof -
  have u0: "upgradeRequests fresh = 0" and w0: "warnings fresh = 0"
    by (simp_all add: upgradeRequests_def warnings_def fresh_def)
  have e1: "costEntry shop_world ''tok'' 1 fresh = Some \<lparr>level = 2, cost = 1000\<rparr>"
    by (simp add: costEntry_def shop_world_def fresh_def bearer_def)
  have e2: "costEntry shop_world ''tok'' 2 fresh = Some \<lparr>level = 3, cost = 5000\<rparr>"
    by (simp add: costEntry_def shop_world_def fresh_def bearer_def)
  have e3: "costEntry shop_world ''tok'' 3 fresh = None"
    by (simp add: costEntry_def shop_world_def fresh_def bearer_def)
  have g1: "js_ge (parsePoints (PString ''5K'')) (cost \<lparr>level = 2, cost = 1000\<rparr>)"
    by (simp add: parsePoints_K)
  have g2: "\<not> js_ge (parsePoints (PString ''1,200'')) (cost \<lparr>level = 3, cost = 5000\<rparr>)"
    by (simp add: parsePoints_thousands)
  from upgrade_iff_affordable [of shop_world "''tok''" "PString ''5K''" 1 fresh] e1 g1
  have r1: "upgradeRequests (checkAndUpgradeModel shop_world ''tok'' (PString ''5K'') 1 fresh)
      = Suc (upgradeRequests fresh)"
    by blast
  from upgrade_iff_affordable [of shop_world "''tok''" "PString ''1,200''" 2 fresh] e2 g2
  have r2: "upgradeRequests (checkAndUpgradeModel shop_world ''tok'' (PString ''1,200'') 2 fresh)
        = upgradeRequests fresh
      \<and> warnings (checkAndUpgradeModel shop_world ''tok'' (PString ''1,200'') 2 fresh)
        = Suc (warnings fresh)"
    by blast
  from upgrade_iff_affordable [of shop_world "''tok''" "PString ''5K''" 3 fresh] e3
  have r3: "upgradeRequests (checkAndUpgradeModel shop_world ''tok'' (PString ''5K'') 3 fresh)
        = upgradeRequests fresh
      \<and> warnings (checkAndUpgradeModel shop_world ''tok'' (PString ''5K'') 3 fresh)
        = warnings fresh"
    by blast
  from g1 have g1': "js_ge (parsePoints (PString ''5K'')) 1000" by simp
  from g2 have g2': "\<not> js_ge (parsePoints (PString ''1,200'')) 5000" by simp
  show ?thesis
    using u0 w0 e1 e2 e3 g1' g2' r1 r2 r3 by simp
qed

section \<open>Properties of the task engine\<close>

lemma forTasks_fold:
  "(\<forall>task \<in> set tasks. task_id task = 1001 \<longrightarrow> checkin_detail task \<noteq> None) \<Longrightarrow>
   forTasks w t tasks st = (Inr (), foldl (\<lambda>s task. snd (handleTask w t task s)) st tasks)"
proof (induction tasks arbitrary: st)
  case Nil
  show ?case by simp
next
  case (Cons task tasks)
  from Cons.prems have here: "task_id task = 1001 \<longrightarrow> checkin_detail task \<noteq> None"
    and rest: "\<forall>x \<in> set tasks. task_id x = 1001 \<longrightarrow> checkin_detail x \<noteq> None"
    by simp_all
  from here have "fst (handleTask w t task st) = Inr ()"
    by (cases "checkin_detail task") (simp_all add: handleTask_def)
  then obtain st1 where h: "handleTask w t task st = (Inr (), st1)"
    by (cases "handleTask w t task st") simp
  show ?case
    by (simp add: h Cons.IH [OF rest])
qed

text \<open>
  C1, as claimed: the task 1001 is completed only through the check-in branch.  In a run
  whose task list holds the task 1001 with \<^verbatim>\<open>is_today_checkin\<close> 1 and
  \<^verbatim>\<open>is_complete\<close> false, the task is completed through the \<^verbatim>\<open>else if\<close> branch,
  with the generic reward message.
\<close>

theorem checkin_task_generic_branch:
  "task_id daily = 1001 \<and> map_option is_today_checkin (checkin_detail daily) = Some 1
   \<and> events (getTasks task_world ''tok'' fresh) =
       [Announced (TaskReward ''Daily check-in'' 100),
        Sent (Post (TaskComplete 1001) EmptyPayload (Some ''tok'')),
        Sent (Get TaskList (Some ''tok''))]"
  by (simp add: getTasks_def get_def post_def send_def bearer_def task_world_def fresh_def
        daily_def handleTask_def completeTask_def Let_def)

text \<open>
  C1, amended.  A task with an id other than 1001 is completed with the generic reward
  message exactly when \<^verbatim>\<open>is_complete\<close> is false.  The task 1001 is completed with the
  check-in message when \<^verbatim>\<open>is_today_checkin\<close> is 0, whatever its \<^verbatim>\<open>is_complete\<close>;
  when \<^verbatim>\<open>is_today_checkin\<close> is not 0 it falls through to the \<^verbatim>\<open>is_complete\<close> test
  and is completed with the generic message when \<^verbatim>\<open>is_complete\<close> is false.  When
  every task 1001 of the list carries a \<^verbatim>\<open>checkin_detail\<close>, all tasks of the list are
  handled so, in list order.
\<close>

theorem task_completion_rule:
  "(task_id task \<noteq> 1001 \<longrightarrow>
      handleTask w t task st =
        (if is_complete task then (Inr (), st)
         else (Inr (), completeTask w t (task_id task)
                         (TaskReward (task_name task) (reward_points task)) st)))
   \<and> (task_id task = 1001 \<and> checkin_detail task = Some d \<and> is_today_checkin d = 0 \<longrightarrow>
        handleTask w t task st = (Inr (), completeTask w t 1001 DailyCheckin st))
   \<and> (task_id task = 1001 \<and> checkin_detail task = Some d \<and> is_today_checkin d \<noteq> 0 \<longrightarrow>
        handleTask w t task st =
          (if is_complete task then (Inr (), st)
           else (Inr (), completeTask w t 1001
                           (TaskReward (task_name task) (reward_points task)) st)))
   \<and> ((\<forall>x \<in> set tasks. task_id x = 1001 \<longrightarrow> checkin_detail x \<noteq> None) \<longrightarrow>
        forTasks w t tasks st = (Inr (), foldl (\<lambda>s x. snd (handleTask w t x s)) st tasks))"
  by (simp add: handleTask_def forTasks_fold)

theorem task_completion_rule_witness:
  "task_id quiz \<noteq> 1001
   \<and> handleTask task_world ''tok'' quiz fresh =
       (Inr (), completeTask task_world ''tok'' 7 (TaskReward ''Quiz'' 50) fresh)
   \<and> task_id daily_due = 1001 \<and> is_complete daily_due
   \<and> handleTask task_world ''tok'' daily_due fresh =
       (Inr (), completeTask task_world ''tok'' 1001 DailyCheckin fresh)
   \<and> task_id daily = 1001
   \<and> handleTask task_world ''tok'' daily fresh =
       (Inr (), completeTask task_world ''tok'' 1001 (TaskReward ''Daily check-in'' 100) fresh)
   \<and> forTasks task_world ''tok'' [daily_due, quiz] fresh =
       (Inr (), foldl (\<lambda>s x. snd (handleTask task_world ''tok'' x s)) fresh [daily_due, quiz])"
proof -
  have q: "task_id quiz \<noteq> 1001" "\<not> is_complete quiz" "task_id quiz = 7"
    "task_name quiz = ''Quiz''" "reward_points quiz = 50"
    by (simp_all add: quiz_def)
  have dd: "task_id daily_due = 1001" "checkin_detail daily_due = Some \<lparr>is_today_checkin = 0\<rparr>"
    "is_complete daily_due"
    by (simp_all add: daily_due_def)
  have d: "task_id daily = 1001" "checkin_detail daily = Some \<lparr>is_today_checkin = 1\<rparr>"
    "\<not> is_complete daily" "task_name daily = ''Daily check-in''" "reward_points daily = 100"
    by (simp_all add: daily_def)
  have l: "\<forall>x \<in> set [daily_due, quiz]. task_id x = 1001 \<longrightarrow> checkin_detail x \<noteq> None"
    by (simp add: daily_due_def quiz_def)
  from task_completion_rule [where task = quiz and w = task_world and t = "''tok''" and st = fresh] q
  have a: "handleTask task_world ''tok'' quiz fresh =
      (Inr (), completeTask task_world ''tok'' 7 (TaskReward ''Quiz'' 50) fresh)"
    by simp
  from task_completion_rule [where task = daily_due and w = task_world and t = "''tok''"
      and st = fresh and d = "\<lparr>is_today_checkin = 0\<rparr>"] dd
  have b: "handleTask task_world ''tok'' daily_due fresh =
      (Inr (), completeTask task_world ''tok'' 1001 DailyCheckin fresh)"
    by simp
  from task_completion_rule [where task = daily and w = task_world and t = "''tok''"
      and st = fresh and d = "\<lparr>is_today_checkin = 1\<rparr>"] d
  have c: "handleTask task_world ''tok'' daily fresh =
      (Inr (), completeTask task_world ''tok'' 1001 (TaskReward ''Daily check-in'' 100) fresh)"
    by simp
  from task_completion_rule [where tasks = "[daily_due, quiz]" and w = task_world
      and t = "''tok''" and st = fresh] l
  have e: "forTasks task_world ''tok'' [daily_due, quiz] fresh =
      (Inr (), foldl (\<lambda>s x. snd (handleTask task_world ''tok'' x s)) fresh [daily_due, quiz])"
    by blast
  show ?thesis
    using q(1) dd(1,3) d(1) a b c e by blast
qed

section \<open>Properties of the claim loop\<close>

lemma collectBody_cases:
  "collectBody w t c st =
     (case server w (calls st) (claimRequest t c) of
        Failed \<Rightarrow> Throw TransportError (logger Error ''API POST Error'' (claimed t c st))
      | Response status data \<Rightarrow>
          if status = 200 then
            (case data of
               CoinsBody cs \<Rightarrow>
                 (case telegram cs of
                    None \<Rightarrow> Throw TypeError (claimed t c st)
                  | Some found \<Rightarrow>
                      if count found = 0
                      then Break (logger Info ''Coins collected, remaining'' (claimed t c st))
                      else Repeat (c\<lparr>count := count found\<rparr>)
                             (countdown 2
                                (logger Info ''Coins collected, remaining'' (claimed t c st))))
             | _ \<Rightarrow> Throw TypeError (claimed t c st))
          else Break (claimed t c st))"
  by (simp add: collectBody_def post_def send_def claimRequest_def claimed_def telegram_def
        Let_def split: http_result.splits body.splits option.splits)

lemma collectBody_Repeat:
  "collectBody w t c st = Repeat c' st' \<Longrightarrow>
   \<exists>cs found. server w (calls st) (claimRequest t c) = Response 200 (CoinsBody cs)
      \<and> telegram cs = Some found \<and> c' = c\<lparr>count := count found\<rparr>"
  by (simp add: collectBody_cases split: http_result.splits body.splits option.splits if_splits)

lemma collectLoop_done: "\<not> 0 < count c \<Longrightarrow> collectLoop w t c st = Some (Inr (), st)"
  by (subst collectLoop.simps) simp

lemma collectLoop_step:
  "0 < count c \<Longrightarrow>
   collectLoop w t c st =
     (case collectBody w t c st of
        Repeat c' st' \<Rightarrow> collectLoop w t c' st'
      | Break st' \<Rightarrow> Some (Inr (), st')
      | Throw e st' \<Rightarrow> Some (Inl e, st'))"
  by (subst collectLoop.simps) simp

lemma collectLoop_terminates:
  assumes dec: "\<And>k c cs found. server w k (claimRequest t c) = Response 200 (CoinsBody cs) \<Longrightarrow>
                  telegram cs = Some found \<Longrightarrow> count found < count c"
  shows "\<exists>r. collectLoop w t c st = Some r"
proof (induction "nat (count c)" arbitrary: c st rule: less_induct)
  case less
  show ?case
  proof (cases "0 < count c")
    case False
    then show ?thesis by (simp add: collectLoop_done)
  next
    case True
    show ?thesis
    proof (cases "collectBody w t c st")
      case (Repeat c' st')
      from collectBody_Repeat [OF Repeat] obtain cs found where
        a: "server w (calls st) (claimRequest t c) = Response 200 (CoinsBody cs)"
        and f: "telegram cs = Some found" and c': "c' = c\<lparr>count := count found\<rparr>"
        by blast
      from dec [OF a f] have "count c' < count c" by (simp add: c')
      with True have "nat (count c') < nat (count c)" by linarith
      from less [OF this] obtain r where "collectLoop w t c' st' = Some r" ..
      then show ?thesis by (simp add: collectLoop_step [OF True] Repeat)
    next
      case (Break st')
      then show ?thesis by (simp add: collectLoop_step [OF True])
    next
      case (Throw e st')
      then show ?thesis by (simp add: collectLoop_step [OF True])
    qed
  qed
qed

lemma collectLoop_forever:
  assumes pos: "\<And>k c. \<exists>cs found. server w k (claimRequest t c) = Response 200 (CoinsBody cs)
                  \<and> telegram cs = Some found \<and> 0 < count found"
    and c: "0 < count c"
  shows "collectLoop w t c st = None"
proof (rule ccontr)
  assume "collectLoop w t c st \<noteq> None"
  then obtain y where y: "collectLoop w t c st = Some y" by blast
  have "\<not> (w = w \<and> t = t \<and> 0 < count c)"
  proof (rule collectLoop.raw_induct
      [where P = "\<lambda>w' t' c' st' y. \<not> (w' = w \<and> t' = t \<and> 0 < count c')", OF _ y])
    fix loop :: "world \<Rightarrow> token \<Rightarrow> coin \<Rightarrow> state \<Rightarrow> ((error + unit) \<times> state) option"
      and w' t' c' st' r
    assume IH: "\<And>w' t' c' st' r. loop w' t' c' st' = Some r \<Longrightarrow>
        \<not> (w' = w \<and> t' = t \<and> 0 < count c')"
      and body: "(if 0 < count c'
                  then case collectBody w' t' c' st' of
                         Repeat c'' st'' \<Rightarrow> loop w' t' c'' st''
                       | Break st'' \<Rightarrow> Some (Inr (), st'')
                       | Throw e st'' \<Rightarrow> Some (Inl e, st'')
                  else Some (Inr (), st')) = Some r"
    show "\<not> (w' = w \<and> t' = t \<and> 0 < count c')"
    proof
      assume h: "w' = w \<and> t' = t \<and> 0 < count c'"
      from pos [of "calls st'" c'] obtain cs found where
        a: "server w (calls st') (claimRequest t c') = Response 200 (CoinsBody cs)"
        and f: "telegram cs = Some found" and p: "0 < count found"
        by blast
      from a f p have b: "collectBody w t c' st' =
          Repeat (c'\<lparr>count := count found\<rparr>)
            (countdown 2 (logger Info ''Coins collected, remaining'' (claimed t c' st')))"
        by (simp add: collectBody_cases)
      from body h b have "loop w t (c'\<lparr>count := count found\<rparr>)
          (countdown 2 (logger Info ''Coins collected, remaining'' (claimed t c' st'))) = Some r"
        by simp
      from IH [OF this] p show False by simp
    qed
  qed
  with c show False by simp
qed

lemma collectCoins_never_throws:
  "collectCoins w t c st = None \<or> (\<exists>st'. collectCoins w t c st = Some (Inr (), st'))"
  by (simp add: collectCoins_def split: option.splits sum.splits prod.splits)

text \<open>
  C4, as claimed: every successful claim strictly decreases the tracked count.  A service
  that answers the claim of 5 coins with status 200 and 5 coins left makes the loop go
  round again with the tracked count still 5.
\<close>

theorem claim_without_decrease:
  "server stubborn_world (calls fresh) (claimRequest ''tok'' telegram5)
     = Response 200 (CoinsBody [\<lparr>coin_type = ''Telegram'', count = 5\<rparr>])
   \<and> count telegram5 = 5
   \<and> collectBody stubborn_world ''tok'' telegram5 fresh
     = Repeat (telegram5\<lparr>count := 5\<rparr>)
         (countdown 2 (logger Info ''Coins collected, remaining''
            (claimed ''tok'' telegram5 fresh)))"
  by (simp add: collectBody_cases stubborn_world_def telegram_def telegram5_def)

text \<open>
  C4, amended.  In the claim loop started with a tracked count above 0: a claim call that
  fails ends the loop with the error; any answer with a status other than 200 ends the
  loop at once, whatever the count; an answer with status 200 that lists no coin of the
  tracked type ends the loop with an error; an answer with status 200 replaces the tracked
  count by the count the service reports, and the loop ends when that count is 0 or less
  and goes round again otherwise.  There is no bound on the number of rounds: the loop
  ends whenever the service always reports less than was sent, and it never ends when the
  service always reports a count above 0.
\<close>

theorem claim_loop_exits:
  "0 < count c \<Longrightarrow>
     (server w (calls st) (claimRequest t c) = Failed \<longrightarrow>
        collectLoop w t c st
          = Some (Inl TransportError, logger Error ''API POST Error'' (claimed t c st)))
   \<and> (\<forall>status data. server w (calls st) (claimRequest t c) = Response status data
          \<and> status \<noteq> 200 \<longrightarrow>
        collectLoop w t c st = Some (Inr (), claimed t c st))
   \<and> (\<forall>data. server w (calls st) (claimRequest t c) = Response 200 data
          \<and> (\<forall>cs. data = CoinsBody cs \<longrightarrow> telegram cs = None) \<longrightarrow>
        collectLoop w t c st = Some (Inl TypeError, claimed t c st))
   \<and> (\<forall>cs found. server w (calls st) (claimRequest t c) = Response 200 (CoinsBody cs)
          \<and> telegram cs = Some found \<longrightarrow>
        collectLoop w t c st =
          (if count found = 0
           then Some (Inr (), logger Info ''Coins collected, remaining'' (claimed t c st))
           else if count found < 0
           then Some (Inr (), countdown 2
                        (logger Info ''Coins collected, remaining'' (claimed t c st)))
           else collectLoop w t (c\<lparr>count := count found\<rparr>)
                  (countdown 2 (logger Info ''Coins collected, remaining'' (claimed t c st)))))
   \<and> ((\<forall>k c' cs found. server w k (claimRequest t c') = Response 200 (CoinsBody cs)
           \<and> telegram cs = Some found \<longrightarrow> count found < count c') \<longrightarrow>
        (\<exists>r. collectLoop w t c st = Some r))
   \<and> ((\<forall>k c'. \<exists>cs found. server w k (claimRequest t c') = Response 200 (CoinsBody cs)
           \<and> telegram cs = Some found \<and> 0 < count found) \<longrightarrow>
        collectLoop w t c st = None)"
proof (intro conjI impI allI)
  assume c: "0 < count c"
  {
    assume "server w (calls st) (claimRequest t c) = Failed"
    then show "collectLoop w t c st
        = Some (Inl TransportError, logger Error ''API POST Error'' (claimed t c st))"
      by (simp add: collectLoop_step [OF c] collectBody_cases)
  next
    fix status data
    assume "server w (calls st) (claimRequest t c) = Response status data \<and> status \<noteq> 200"
    then show "collectLoop w t c st = Some (Inr (), claimed t c st)"
      by (simp add: collectLoop_step [OF c] collectBody_cases)
  next
    fix data
    assume "server w (calls st) (claimRequest t c) = Response 200 data
        \<and> (\<forall>cs. data = CoinsBody cs \<longrightarrow> telegram cs = None)"
    then show "collectLoop w t c st = Some (Inl TypeError, claimed t c st)"
      by (cases data) (simp_all add: collectLoop_step [OF c] collectBody_cases)
  next
    fix cs found
    assume "server w (calls st) (claimRequest t c) = Response 200 (CoinsBody cs)
        \<and> telegram cs = Some found"
    then show "collectLoop w t c st =
          (if count found = 0
           then Some (Inr (), logger Info ''Coins collected, remaining'' (claimed t c st))
           else if count found < 0
           then Some (Inr (), countdown 2
                        (logger Info ''Coins collected, remaining'' (claimed t c st)))
           else collectLoop w t (c\<lparr>count := count found\<rparr>)
                  (countdown 2 (logger Info ''Coins collected, remaining'' (claimed t c st))))"
      by (simp add: collectLoop_step [OF c] collectBody_cases collectLoop_done)
  next
    assume "\<forall>k c' cs found. server w k (claimRequest t c') = Response 200 (CoinsBody cs)
           \<and> telegram cs = Some found \<longrightarrow> count found < count c'"
    then have "\<And>k c' cs found. server w k (claimRequest t c') = Response 200 (CoinsBody cs) \<Longrightarrow>
        telegram cs = Some found \<Longrightarrow> count found < count c'"
      by blast
    then show "\<exists>r. collectLoop w t c st = Some r"
      by (rule collectLoop_terminates)
  next
    assume "\<forall>k c'. \<exists>cs found. server w k (claimRequest t c') = Response 200 (CoinsBody cs)
           \<and> telegram cs = Some found \<and> 0 < count found"
    then have "\<And>k c'. \<exists>cs found. server w k (claimRequest t c') = Response 200 (CoinsBody cs)
           \<and> telegram cs = Some found \<and> 0 < count found"
      by blast
    then show "collectLoop w t c st = None"
      using c by (rule collectLoop_forever)
  }
qed

theorem claim_loop_exits_witness:
  "0 < count telegram5
   \<and> collectLoop epoch_world ''tok'' telegram5 fresh
       = Some (Inl TransportError, logger Error ''API POST Error'' (claimed ''tok'' telegram5 fresh))
   \<and> collectLoop busy_world ''tok'' telegram5 fresh
       = Some (Inr (), claimed ''tok'' telegram5 fresh)
   \<and> collectLoop coinless_world ''tok'' telegram5 fresh
       = Some (Inl TypeError, claimed ''tok'' telegram5 fresh)
   \<and> collectLoop draining_world ''tok'' telegram5 fresh
       = collectLoop draining_world ''tok'' (telegram5\<lparr>count := 4\<rparr>)
           (countdown 2 (logger Info ''Coins collected, remaining''
              (claimed ''tok'' telegram5 fresh)))
   \<and> (\<exists>r. collectLoop draining_world ''tok'' telegram5 fresh = Some r)
   \<and> collectLoop stubborn_world ''tok'' telegram5 fresh = None"
proof -
  have c: "0 < count telegram5"
    by (simp add: telegram5_def)
  have r: "claimRequest ''tok'' telegram5
      = Post HomeCollect (CollectPayload ''Telegram'' 5) (Some ''tok'')"
    by (simp add: claimRequest_def telegram5_def bearer_def)
  have a1: "server epoch_world (calls fresh) (claimRequest ''tok'' telegram5) = Failed"
    by (simp add: epoch_world_def)
  have a2: "server busy_world (calls fresh) (claimRequest ''tok'' telegram5) = Response 204 NoBody
      \<and> (204::int) \<noteq> 200"
    by (simp add: busy_world_def)
  have a3: "server coinless_world (calls fresh) (claimRequest ''tok'' telegram5)
        = Response 200 (CoinsBody [\<lparr>coin_type = ''Discord'', count = 3\<rparr>])
      \<and> (\<forall>cs. CoinsBody [\<lparr>coin_type = ''Discord'', count = 3\<rparr>] = CoinsBody cs
            \<longrightarrow> telegram cs = None)"
    by (simp add: coinless_world_def r telegram_def)
  have a4: "server draining_world (calls fresh) (claimRequest ''tok'' telegram5)
        = Response 200 (CoinsBody [\<lparr>coin_type = ''Telegram'', count = 4\<rparr>])
      \<and> telegram [\<lparr>coin_type = ''Telegram'', count = 4\<rparr>]
        = Some \<lparr>coin_type = ''Telegram'', count = 4\<rparr>"
    by (simp add: draining_world_def r telegram_def)
  have a5: "\<forall>k c' cs found.
      server draining_world k (claimRequest ''tok'' c') = Response 200 (CoinsBody cs)
        \<and> telegram cs = Some found \<longrightarrow> count found < count c'"
    by (auto simp: draining_world_def claimRequest_def telegram_def)
  have a6: "\<forall>k c'. \<exists>cs found.
      server stubborn_world k (claimRequest ''tok'' c') = Response 200 (CoinsBody cs)
        \<and> telegram cs = Some found \<and> 0 < count found"
    by (simp add: stubborn_world_def telegram_def)
  note t1 = claim_loop_exits [OF c, of epoch_world fresh "''tok''"]
  note t2 = claim_loop_exits [OF c, of busy_world fresh "''tok''"]
  note t3 = claim_loop_exits [OF c, of coinless_world fresh "''tok''"]
  note t4 = claim_loop_exits [OF c, of draining_world fresh "''tok''"]
  note t5 = claim_loop_exits [OF c, of stubborn_world fresh "''tok''"]
  from t1 a1 have b1: "collectLoop epoch_world ''tok'' telegram5 fresh
      = Some (Inl TransportError, logger Error ''API POST Error'' (claimed ''tok'' telegram5 fresh))"
    by blast
  from t2 a2 have b2: "collectLoop busy_world ''tok'' telegram5 fresh
      = Some (Inr (), claimed ''tok'' telegram5 fresh)"
    by blast
  from t3 a3 have b3: "collectLoop coinless_world ''tok'' telegram5 fresh
      = Some (Inl TypeError, claimed ''tok'' telegram5 fresh)"
    by blast
  from t4 a4 have "collectLoop draining_world ''tok'' telegram5 fresh =
          (if count \<lparr>coin_type = ''Telegram'', count = 4\<rparr> = 0
           then Some (Inr (), logger Info ''Coins collected, remaining'' (claimed ''tok'' telegram5 fresh))
           else if count \<lparr>coin_type = ''Telegram'', count = 4\<rparr> < 0
           then Some (Inr (), countdown 2
                        (logger Info ''Coins collected, remaining'' (claimed ''tok'' telegram5 fresh)))
           else collectLoop draining_world ''tok''
                  (telegram5\<lparr>count := count \<lparr>coin_type = ''Telegram'', count = 4\<rparr>\<rparr>)
                  (countdown 2 (logger Info ''Coins collected, remaining''
                     (claimed ''tok'' telegram5 fresh))))"
    by blast
  then have b4: "collectLoop draining_world ''tok'' telegram5 fresh
       = collectLoop draining_world ''tok'' (telegram5\<lparr>count := 4\<rparr>)
           (countdown 2 (logger Info ''Coins collected, remaining''
              (claimed ''tok'' telegram5 fresh)))"
    by simp
  from t4 a5 have b5: "\<exists>r. collectLoop draining_world ''tok'' telegram5 fresh = Some r"
    by blast
  from t5 a6 have b6: "collectLoop stubborn_world ''tok'' telegram5 fresh = None"
    by blast
  from c b1 b2 b3 b4 b5 b6 show ?thesis
    by blast
qed

lemma getHomeData_after_collect:
  "server w (calls st) (Get Home (bearer (Some t))) = Response 200 (HomeBody h) \<Longrightarrow>
   telegram (coins h) = Some c \<Longrightarrow> 0 < count c \<Longrightarrow>
   collectCoins w t c (logHomeData (current_model h) (data_power h) (pin_points h) (fetched t st))
     = Some (Inr (), st3) \<Longrightarrow>
   getHomeData w t up st =
     Some (if up then checkAndUpgradeModel w t (pin_points h) (current_level (current_model h)) st3
           else st3)"
  by (simp add: getHomeData_def get_def send_def fetched_def telegram_def Let_def)

text \<open>
  C10.  \<^verbatim>\<open>collectCoins\<close> never lets an error out: it does not return, or it returns
  normally.  When the claim is answered with status 200 and a coin list without a coin of
  the tracked type, the error is logged and the loop has stopped after that one request.
  In \<^verbatim>\<open>getHomeData\<close>, once \<^verbatim>\<open>collectCoins\<close> has returned the step goes on to the
  upgrade check, from the state \<^verbatim>\<open>collectCoins\<close> left.
\<close>

theorem collectCoins_contains_errors:
  "(collectCoins w t c st = None \<or> (\<exists>st'. collectCoins w t c st = Some (Inr (), st')))
   \<and> (0 < count c \<and> server w (calls st) (claimRequest t c) = Response 200 (CoinsBody cs)
        \<and> telegram cs = None \<longrightarrow>
      collectCoins w t c st
        = Some (Inr (), logger Error ''Error collecting coins'' (claimed t c st)))
   \<and> (server w (calls st) (Get Home (bearer (Some t))) = Response 200 (HomeBody h)
        \<and> telegram (coins h) = Some c \<and> 0 < count c
        \<and> collectCoins w t c
            (logHomeData (current_model h) (data_power h) (pin_points h) (fetched t st))
          \<noteq> None \<longrightarrow>
      (\<exists>st3. collectCoins w t c
            (logHomeData (current_model h) (data_power h) (pin_points h) (fetched t st))
          = Some (Inr (), st3)
        \<and> getHomeData w t up st =
            Some (if up
                  then checkAndUpgradeModel w t (pin_points h)
                         (current_level (current_model h)) st3
                  else st3)))"
proof (intro conjI impI)
  show "collectCoins w t c st = None \<or> (\<exists>st'. collectCoins w t c st = Some (Inr (), st'))"
    by (rule collectCoins_never_throws)
next
  assume "0 < count c \<and> server w (calls st) (claimRequest t c) = Response 200 (CoinsBody cs)
        \<and> telegram cs = None"
  then show "collectCoins w t c st
        = Some (Inr (), logger Error ''Error collecting coins'' (claimed t c st))"
    by (simp add: collectCoins_def collectLoop_step collectBody_cases)
next
  let ?st2 = "logHomeData (current_model h) (data_power h) (pin_points h) (fetched t st)"
  assume a: "server w (calls st) (Get Home (bearer (Some t))) = Response 200 (HomeBody h)
        \<and> telegram (coins h) = Some c \<and> 0 < count c
        \<and> collectCoins w t c ?st2 \<noteq> None"
  with collectCoins_never_throws [of w t c ?st2]
  obtain st3 where s: "collectCoins w t c ?st2 = Some (Inr (), st3)"
    by blast
  from a s getHomeData_after_collect [of w st t h c st3 up]
  show "\<exists>st3. collectCoins w t c ?st2 = Some (Inr (), st3)
        \<and> getHomeData w t up st =
            Some (if up
                  then checkAndUpgradeModel w t (pin_points h)
                         (current_level (current_model h)) st3
                  else st3)"
    by blast
qed

theorem collectCoins_contains_errors_witness:
  "0 < count telegram5
   \<and> telegram (coins coinless_home) = Some telegram5
   \<and> collectCoins coinless_world ''tok'' telegram5 fresh
       = Some (Inr (), logger Error ''Error collecting coins'' (claimed ''tok'' telegram5 fresh))
   \<and> getHomeData coinless_world ''tok'' True fresh
       = Some (checkAndUpgradeModel coinless_world ''tok'' (PString ''5K'') 1
                 (logger Error ''Error collecting coins''
                    (claimed ''tok'' telegram5
                       (logHomeData \<lparr>name = ''Basic'', current_level = 1\<rparr> 3 (PString ''5K'')
                          (fetched ''tok'' fresh)))))"
proof -
  let ?st2 = "logHomeData (current_model coinless_home) (data_power coinless_home)
      (pin_points coinless_home) (fetched ''tok'' fresh)"
  have c: "0 < count telegram5"
    by (simp add: telegram5_def)
  have r: "claimRequest ''tok'' telegram5
      = Post HomeCollect (CollectPayload ''Telegram'' 5) (Some ''tok'')"
    by (simp add: claimRequest_def telegram5_def bearer_def)
  have tg: "telegram (coins coinless_home) = Some telegram5"
    by (simp add: coinless_home_def telegram_def telegram5_def)
  have nt: "telegram [\<lparr>coin_type = ''Discord'', count = 3\<rparr>] = None"
    by (simp add: telegram_def)
  have a: "server coinless_world (calls fresh) (claimRequest ''tok'' telegram5)
      = Response 200 (CoinsBody [\<lparr>coin_type = ''Discord'', count = 3\<rparr>])"
    by (simp add: coinless_world_def r)
  have a': "server coinless_world (calls ?st2) (claimRequest ''tok'' telegram5)
      = Response 200 (CoinsBody [\<lparr>coin_type = ''Discord'', count = 3\<rparr>])"
    by (simp add: coinless_world_def r)
  have h: "server coinless_world (calls fresh) (Get Home (bearer (Some ''tok'')))
      = Response 200 (HomeBody coinless_home)"
    by (simp add: coinless_world_def)
  from collectCoins_contains_errors
    [of coinless_world "''tok''" telegram5 fresh "[\<lparr>coin_type = ''Discord'', count = 3\<rparr>]"]
    c a nt
  have b1: "collectCoins coinless_world ''tok'' telegram5 fresh
      = Some (Inr (), logger Error ''Error collecting coins'' (claimed ''tok'' telegram5 fresh))"
    by blast
  from collectCoins_contains_errors
    [of coinless_world "''tok''" telegram5 ?st2 "[\<lparr>coin_type = ''Discord'', count = 3\<rparr>]"]
    c a' nt
  have b2: "collectCoins coinless_world ''tok'' telegram5 ?st2
      = Some (Inr (), logger Error ''Error collecting coins'' (claimed ''tok'' telegram5 ?st2))"
    by blast
  then have b2': "collectCoins coinless_world ''tok'' telegram5 ?st2 \<noteq> None"
    by simp
  from collectCoins_contains_errors
    [of coinless_world "''tok''" telegram5 fresh _ coinless_home True]
    h tg c b2'
  obtain st3 where s: "collectCoins coinless_world ''tok'' telegram5 ?st2 = Some (Inr (), st3)"
    and g: "getHomeData coinless_world ''tok'' True fresh =
        Some (if True
              then checkAndUpgradeModel coinless_world ''tok'' (pin_points coinless_home)
                     (current_level (current_model coinless_home)) st3
              else st3)"
    by blast
  from s b2 have "st3 = logger Error ''Error collecting coins'' (claimed ''tok'' telegram5 ?st2)"
    by simp
  with g have b3: "getHomeData coinless_world ''tok'' True fresh
       = Some (checkAndUpgradeModel coinless_world ''tok'' (PString ''5K'') 1
                 (logger Error ''Error collecting coins''
                    (claimed ''tok'' telegram5
                       (logHomeData \<lparr>name = ''Basic'', current_level = 1\<rparr> 3 (PString ''5K'')
                          (fetched ''tok'' fresh)))))"
    by (simp add: coinless_home_def)
  from c tg b1 b3 show ?thesis
    by blast
qed

section \<open>Properties of the orchestration loop\<close>

lemma isExpired_fst_ticks:
  "ticks st' = ticks st \<Longrightarrow> fst (isExpired w t st') = fst (isExpired w t st)"
  by (simp add: isExpired_result split: option.splits sum.splits)

lemma isExpired_keeps:
  "calls (snd (isExpired w t st)) = calls st"
  "tokenFile (snd (isExpired w t st)) = tokenFile st"
  "engineRequests (snd (isExpired w t st)) = engineRequests st"
  by (simp_all add: isExpired_def Let_def logger_def engineRequests_def is_engine_request_def
        split: option.splits sum.splits)

lemma cachedToken_fst:
  "fst (cachedToken w currentToken st) =
     (case currentToken of
        None \<Rightarrow> None
      | Some tok \<Rightarrow>
          if tok = [] then None else if fst (isExpired w tok st) then None else Some tok)"
  by (simp add: cachedToken_def split: option.splits prod.splits bool.splits)

lemma cachedToken_snd:
  "snd (cachedToken w currentToken st) =
     (case currentToken of
        None \<Rightarrow> st
      | Some tok \<Rightarrow> if tok = [] then st else snd (isExpired w tok st))"
  by (simp add: cachedToken_def split: option.splits prod.splits bool.splits)

lemma cachedToken_keeps:
  "calls (snd (cachedToken w currentToken st)) = calls st"
  "tokenFile (snd (cachedToken w currentToken st)) = tokenFile st"
  "engineRequests (snd (cachedToken w currentToken st)) = engineRequests st"
  by (simp_all add: cachedToken_snd isExpired_keeps split: option.splits)

lemma login_fst:
  "fst (loginToPinaiAPI w i st) =
     (case server w (calls st) (Post PassportLoginTelegram (LoginPayload ''pBVlK4n'' i) None) of
        Failed \<Rightarrow> None
      | Response status data \<Rightarrow>
          if status = 200 then (case data of LoginBody tok \<Rightarrow> tok | _ \<Rightarrow> None) else None)"
  by (simp add: loginToPinaiAPI_def post_def send_def Let_def bearer_def
        split: http_result.splits body.splits)

lemma login_keeps:
  "tokenFile (snd (loginToPinaiAPI w i st)) = tokenFile st"
  "engineRequests (snd (loginToPinaiAPI w i st)) = engineRequests st"
  by (simp_all add: loginToPinaiAPI_def post_def send_def Let_def bearer_def logger_def
        engineRequests_def is_engine_request_def split: http_result.splits body.splits)

lemma logger_keeps:
  "calls (logger l m st) = calls st" "ticks (logger l m st) = ticks st"
  "tokenFile (logger l m st) = tokenFile st"
  "engineRequests (logger l m st) = engineRequests st"
  by (simp_all add: logger_def engineRequests_def is_engine_request_def)

lemma countdown_keeps:
  "tokenFile (countdown n st) = tokenFile st"
  "engineRequests (countdown n st) = engineRequests st"
  by (simp_all add: countdown_def engineRequests_def is_engine_request_def)

lemma extract_account42: "extractUserId w account42 = parseUser w ''%7B%22id%22%3A42%7D''"
  by (simp add: extractUserId_def account42_def split_str_def)



lemma dataLines_account42: "dataLines account42 = [account42]"
  by (simp add: dataLines_def account42_def split_str_def)

text \<open>
  C7.  For an account whose cached token is missing or expired, when the login returns
  null the account's turn ends normally, the token file is what it was (no entry is
  written) and no request of the Reward/Progression engine or the Task engine was sent.
\<close>

theorem failed_login_skips_account:
  assumes uid: "extractUserId w initData = Inr uid"
    and stale: "accessToken tokenData uid = Inr None
        \<or> (\<exists>tok. accessToken tokenData uid = Inr (Some tok) \<and> fst (isExpired w tok st))"
    and failed: "fst (loginToPinaiAPI w initData st) = None"
  shows "\<exists>st'. processAccount w tokenData shouldUpgrade initData st = Some (Inr (), st')
           \<and> tokenFile st' = tokenFile st
           \<and> engineRequests st' = engineRequests st"
proof -
  let ?s0 = "logger Info ''Processing Account'' st"
  from stale obtain cur where a: "accessToken tokenData uid = Inr cur"
    and cur: "cur = None \<or> (\<exists>tok. cur = Some tok \<and> fst (isExpired w tok st))"
    by auto
  obtain r st1 where c: "cachedToken w cur ?s0 = (r, st1)"
    by (cases "cachedToken w cur ?s0")
  have e: "fst (isExpired w tok ?s0) = fst (isExpired w tok st)" for tok
    by (rule isExpired_fst_ticks) (simp add: logger_keeps)
  from cur have "fst (cachedToken w cur ?s0) = None"
  proof
    assume "cur = None"
    then show ?thesis by (simp add: cachedToken_fst)
  next
    assume "\<exists>tok. cur = Some tok \<and> fst (isExpired w tok st)"
    then obtain tok where "cur = Some tok" and "fst (isExpired w tok st)"
      by blast
    then show ?thesis by (simp add: cachedToken_fst e)
  qed
  with c have r: "r = None" by simp
  from c have st1: "st1 = snd (cachedToken w cur ?s0)" by simp
  have k1: "calls st1 = calls st" "tokenFile st1 = tokenFile st"
    "engineRequests st1 = engineRequests st"
    by (simp_all add: st1 cachedToken_keeps logger_keeps)
  let ?s1 = "logger Warn ''Token invalid/expired for account'' st1"
  obtain n st2 where l: "loginToPinaiAPI w initData ?s1 = (n, st2)"
    by (cases "loginToPinaiAPI w initData ?s1")
  have "fst (loginToPinaiAPI w initData ?s1) = fst (loginToPinaiAPI w initData st)"
    by (simp add: login_fst logger_keeps k1)
  with failed l have n: "n = None" by simp
  from l have st2: "st2 = snd (loginToPinaiAPI w initData ?s1)" by simp
  have k2: "tokenFile st2 = tokenFile st" "engineRequests st2 = engineRequests st"
    by (simp_all add: st2 login_keeps logger_keeps k1)
  have "processAccount w tokenData shouldUpgrade initData st = Some (Inr (), countdown 3 st2)"
    by (simp add: processAccount_def uid a c r l n)
  then show ?thesis
    by (simp add: countdown_keeps k2)
qed

theorem failed_login_skips_account_witness:
  "extractUserId epoch_world account42 = Inr ''42''
   \<and> accessToken (Object [(''42'', ''stale'')]) ''42'' = Inr (Some ''stale'')
   \<and> fst (isExpired epoch_world ''stale'' fresh)
   \<and> fst (loginToPinaiAPI epoch_world account42 fresh) = None
   \<and> (\<exists>st'. processAccount epoch_world (Object [(''42'', ''stale'')]) True account42 fresh
               = Some (Inr (), st')
          \<and> tokenFile st' = tokenFile fresh
          \<and> engineRequests st' = engineRequests fresh)"
proof -
  have u: "extractUserId epoch_world account42 = Inr ''42''"
    by (simp add: extract_account42 epoch_world_def sample_parseUser_def)
  have m: "accessToken (Object [(''42'', ''stale'')]) ''42'' = Inr (Some ''stale'')"
    by (simp add: accessToken_def)
  have x: "fst (isExpired epoch_world ''stale'' fresh)"
    by (simp add: isExpired_def split_str_def)
  have l: "fst (loginToPinaiAPI epoch_world account42 fresh) = None"
    by (simp add: login_fst epoch_world_def)
  from m x have s: "accessToken (Object [(''42'', ''stale'')]) ''42'' = Inr None
      \<or> (\<exists>tok. accessToken (Object [(''42'', ''stale'')]) ''42'' = Inr (Some tok)
            \<and> fst (isExpired epoch_world tok fresh))"
    by blast
  from failed_login_skips_account [OF u s l, of True] u m x l show ?thesis
    by blast
qed



lemma processAccount_null:
  "extractUserId w initData = Inr uid \<Longrightarrow>
   processAccount w Null shouldUpgrade initData st
     = Some (Inl TypeError, logger Info ''Processing Account'' st)"
  by (simp add: processAccount_def accessToken_def)

















text \<open>
  A \<^verbatim>\<open>token.json\<close> that holds \<^verbatim>\<open>null\<close> ends the process too, at the first account,
  although its line is well-formed.
\<close>

lemma null_store_ends_process:
  "main epoch_world (Some account42) 1 null_store
     = Some (Exit 1, logger Error ''Main process error''
                       (logger Info ''Processing Account'' null_store))"
proof -
  have u: "extractUserId epoch_world account42 = Inr ''42''"
    by (simp add: extract_account42 epoch_world_def sample_parseUser_def)
  have l: "loadTokens null_store = (Null, null_store)"
    by (simp add: loadTokens_def null_store_def)
  show ?thesis
    by (simp add: dataLines_account42 main_def l processAccount_null [OF u])
qed



lemma reuse_cached_token:
  "extractUserId w initData = Inr uid \<Longrightarrow>
   accessToken tokenData uid = Inr currentToken \<Longrightarrow>
   fst (cachedToken w currentToken (logger Info ''Processing Account'' st)) = Some tok \<Longrightarrow>
   processAccount w tokenData shouldUpgrade initData st =
     map_option (\<lambda>s. (Inr (), countdown 3 s))
       (runEngines w tok shouldUpgrade
          (snd (cachedToken w currentToken (logger Info ''Processing Account'' st))))"
  by (cases "cachedToken w currentToken (logger Info ''Processing Account'' st)")
     (simp add: processAccount_def split: option.splits)

text \<open>
  C2.  The claim has the token saved by a login read back in every later cycle, so that
  an account with a valid saved token is never logged in again.  \<^verbatim>\<open>main\<close> loads
  \<^verbatim>\<open>tokenData\<close> once, before \<^verbatim>\<open>while (true)\<close>, and \<^verbatim>\<open>saveToken\<close> writes the
  file only.  In a run with the one account 42 and no token file at the start, the first
  pass logs in and saves, under the key 42, a token that is not expired; with the saved
  file as token data the account's turn would send no login; the second pass of the run
  logs in again.
\<close>

theorem relogin_despite_saved_token:
  "extractUserId login_world account42 = Inr ''42''
   \<and> summary (main login_world (Some account42) 1 fresh)
       = Some (Looping, Tokens [(''42'', issued)], 1)
   \<and> fst (isExpired login_world issued fresh) = False
   \<and> accessToken (Object [(''42'', issued)]) ''42'' = Inr (Some issued)
   \<and> fst (cachedToken login_world (Some issued) fresh) = Some issued
   \<and> map_option (\<lambda>(r, st). loginRequests st)
       (processAccount login_world (Object [(''42'', issued)]) True account42 fresh) = Some 0
   \<and> summary (main login_world (Some account42) 2 fresh)
       = Some (Looping, Tokens [(''42'', issued)], 2)"
proof -
  have u: "extractUserId login_world account42 = Inr ''42''"
    by (simp add: extract_account42 login_world_def sample_parseUser_def)
  have x: "fst (isExpired login_world issued st) = False" for st
    by (simp add: isExpired_def issued_def login_world_def sample_decodePayload_def
          split_str_def)
  have a: "accessToken (Object [(''42'', issued)]) ''42'' = Inr (Some issued)"
    by (simp add: accessToken_def)
  have n: "issued \<noteq> []"
    by (simp add: issued_def)
  have c: "fst (cachedToken login_world (Some issued) st) = Some issued" for st
    by (simp add: cachedToken_fst x n)
  have r: "map_option (\<lambda>(r, st). loginRequests st)
       (processAccount login_world (Object [(''42'', issued)]) True account42 fresh) = Some 0"
    by (subst reuse_cached_token [OF u a c])
       (simp add: cachedToken_snd n runEngines_def
          getHomeData_def get_def send_def getTasks_def bearer_def login_world_def
          isExpired_def issued_def sample_decodePayload_def split_str_def
          logger_def countdown_def loginRequests_def is_login_def fresh_def Let_def)
  have m: "summary (main login_world (Some account42) 1 fresh)
         = Some (Looping, Tokens [(''42'', issued)], 1)
       \<and> summary (main login_world (Some account42) 2 fresh)
         = Some (Looping, Tokens [(''42'', issued)], 2)"
    by (simp add: summary_def main_def dataLines_account42 numeral_2_eq_2
          processAccount_def extract_account42 sample_parseUser_def accessToken_def
          cachedToken_def runEngines_def
          loginToPinaiAPI_def post_def send_def bearer_def getHomeData_def get_def getTasks_def
          saveToken_def loadTokens_def logger_def countdown_def
          loginRequests_def is_login_def n login_world_def fresh_def Let_def)
  from u x [of fresh] a c [of fresh] r m show ?thesis
    by blast
qed

end
